theory Spec2Isabelle
  imports Main "HOL-Library.Product_Lexorder" "HOL-Library.Sublist" "HOL-Library.Word"
begin

section \<open>Outcomes of a call\<close>

text \<open>
  A call of the storage layer ends in one of three ways: it returns, it throws a C++
  exception that the caller may catch (the state at the throw is kept), or an
  \<^verbatim>\<open>assert\<close> fails and the process stops (no state is left to speak about).
  Assertions are modelled as compiled in.
\<close>

datatype error =
    CannotPopBackFromEmptyVectorException
  | PersisterException
  | ParseJSONException
  | BadFunctionCall

datatype 's outcome = Done 's | Throws error 's | Abort

section \<open>\<^verbatim>\<open>std::map\<close>\<close>

text \<open>
  A \<^verbatim>\<open>std::map<K, V>\<close> is kept as the list of its entries in iteration order, that is,
  ascending by key under \<^verbatim>\<open>operator<\<close>, one entry per key.
\<close>

type_synonym ('k, 'v) std_map = "('k \<times> 'v) list"

definition std_map_find :: "'k \<Rightarrow> ('k, 'v) std_map \<Rightarrow> 'v option" where
  "std_map_find k m = map_of m k"

text \<open>\<^verbatim>\<open>m[k] = v\<close> and \<^verbatim>\<open>m.insert_or_assign(k, v)\<close>: two keys are the same key when
  neither is less than the other.\<close>

fun std_map_assign :: "'k::linorder \<Rightarrow> 'v \<Rightarrow> ('k, 'v) std_map \<Rightarrow> ('k, 'v) std_map" where
  "std_map_assign k v [] = [(k, v)]"
| "std_map_assign k v (p # ps) =
     (if k < fst p then (k, v) # p # ps
      else if fst p < k then p # std_map_assign k v ps
      else (k, v) # ps)"

text \<open>\<^verbatim>\<open>m.erase(k)\<close>.\<close>

definition std_map_erase :: "'k \<Rightarrow> ('k, 'v) std_map \<Rightarrow> ('k, 'v) std_map" where
  "std_map_erase k m = filter (\<lambda>p. fst p \<noteq> k) m"

text \<open>The reference \<^verbatim>\<open>m[k]\<close>: when \<^verbatim>\<open>k\<close> is absent a value-initialised entry is
  inserted first. The result is the entry's value and the map after the access.\<close>

definition std_map_subscript ::
  "'k::linorder \<Rightarrow> 'v \<Rightarrow> ('k, 'v) std_map \<Rightarrow> 'v \<times> ('k, 'v) std_map" where
  "std_map_subscript k dflt m =
     (case std_map_find k m of
        Some v \<Rightarrow> (v, m)
      | None \<Rightarrow> (dflt, std_map_assign k dflt m))"

definition std_map_keys :: "('k, 'v) std_map \<Rightarrow> 'k list" where
  "std_map_keys m = map fst m"

text \<open>What every \<^verbatim>\<open>std::map\<close> is: its keys strictly ascend.\<close>

definition std_map_ok :: "('k::linorder, 'v) std_map \<Rightarrow> bool" where
  "std_map_ok m = sorted_wrt (<) (map fst m)"

section \<open>Containers (\<^verbatim>\<open>TransactionalStorage/storage.h\<close>)\<close>

subsection \<open>Vector\<close>

text \<open>
  \<^verbatim>\<open>VectorStorage<T>\<close> is the \<^verbatim>\<open>std::vector<T> vector_\<close>, a list. \<^verbatim>\<open>VectorAPI<T, PERSISTER>\<close>
  is written against any persister: its two methods are parameters here, acting on the
  persister's own state \<open>'p\<close>. The state of a container is the pair of its storage and
  its persister.
\<close>

type_synonym 'a VectorStorage = "'a list"

definition Vector_Empty :: "'a VectorStorage \<Rightarrow> bool" where
  "Vector_Empty vec = (vec = [])"


definition Vector_At :: "'a VectorStorage \<Rightarrow> nat \<Rightarrow> 'a option" where
  "Vector_At vec index = (if index < length vec then Some (vec ! index) else None)"

definition PushBack ::
  "(nat \<Rightarrow> 'a \<Rightarrow> 'p \<Rightarrow> 'p outcome) \<Rightarrow> 'a \<Rightarrow> 'a VectorStorage \<times> 'p \<Rightarrow> ('a VectorStorage \<times> 'p) outcome" where
  "PushBack PersistPushBack object s =
     (case s of (vec, persister) \<Rightarrow>
        (case PersistPushBack (length vec) object persister of
           Done p \<Rightarrow> Done (vec @ [object], p)
         | Throws e p \<Rightarrow> Throws e (vec, p)
         | Abort \<Rightarrow> Abort))"

definition PopBack ::
  "(nat \<Rightarrow> 'p \<Rightarrow> 'p outcome) \<Rightarrow> 'a VectorStorage \<times> 'p \<Rightarrow> ('a VectorStorage \<times> 'p) outcome" where
  "PopBack PersistPopBack s =
     (case s of (vec, persister) \<Rightarrow>
        if vec \<noteq> [] then
          (case PersistPopBack (length vec) persister of
             Done p \<Rightarrow> Done (butlast vec, p)
           | Throws e p \<Rightarrow> Throws e (vec, p)
           | Abort \<Rightarrow> Abort)
        else Throws CannotPopBackFromEmptyVectorException (vec, persister))"

subsection \<open>OrderedDictionary\<close>

text \<open>
  \<^verbatim>\<open>OrderedDictionaryStorage<T>\<close> is the \<^verbatim>\<open>std::map<T_KEY, T> map_\<close>. \<^verbatim>\<open>sfinae::GetKey\<close>
  (the record's \<^verbatim>\<open>key\<close> field or \<^verbatim>\<open>get_key()\<close>) is the parameter \<open>GetKey\<close>.
\<close>

type_synonym ('k, 't) OrderedDictionaryStorage = "('k, 't) std_map"

definition DoInsert ::
  "('t \<Rightarrow> 'k::linorder) \<Rightarrow> 't \<Rightarrow> ('k, 't) OrderedDictionaryStorage \<Rightarrow> ('k, 't) OrderedDictionaryStorage" where
  "DoInsert GetKey object dict = std_map_assign (GetKey object) object dict"

definition Dictionary_Empty :: "('k, 't) OrderedDictionaryStorage \<Rightarrow> bool" where
  "Dictionary_Empty dict = (dict = [])"

definition Dictionary_Size :: "('k, 't) OrderedDictionaryStorage \<Rightarrow> nat" where
  "Dictionary_Size dict = length dict"

definition Dictionary_Get :: "('k, 't) OrderedDictionaryStorage \<Rightarrow> 'k \<Rightarrow> 't option" where
  "Dictionary_Get dict key = std_map_find key dict"

definition Insert ::
  "('t \<Rightarrow> 'p \<Rightarrow> 'p outcome) \<Rightarrow> ('t \<Rightarrow> 'k::linorder) \<Rightarrow> 't \<Rightarrow>
     ('k, 't) OrderedDictionaryStorage \<times> 'p \<Rightarrow> (('k, 't) OrderedDictionaryStorage \<times> 'p) outcome" where
  "Insert PersistInsert GetKey object s =
     (case s of (dict, persister) \<Rightarrow>
        (case PersistInsert object persister of
           Done p \<Rightarrow> Done (DoInsert GetKey object dict, p)
         | Throws e p \<Rightarrow> Throws e (dict, p)
         | Abort \<Rightarrow> Abort))"

definition Erase ::
  "('k \<Rightarrow> 'p \<Rightarrow> 'p outcome) \<Rightarrow> 'k \<Rightarrow>
     ('k, 't) OrderedDictionaryStorage \<times> 'p \<Rightarrow> (('k, 't) OrderedDictionaryStorage \<times> 'p) outcome" where
  "Erase PersistErase key s =
     (case s of (dict, persister) \<Rightarrow>
        (case PersistErase key persister of
           Done p \<Rightarrow> Done (std_map_erase key dict, p)
         | Throws e p \<Rightarrow> Throws e (dict, p)
         | Abort \<Rightarrow> Abort))"

subsection \<open>LightweightMatrix\<close>

text \<open>
  \<^verbatim>\<open>LightweightMatrixStorage<T>\<close> owns each cell in \<^verbatim>\<open>map_\<close>; \<^verbatim>\<open>forward_\<close> and
  \<^verbatim>\<open>transposed_\<close> hold a \<^verbatim>\<open>const T*\<close> to the owned cell. The model keeps, in place of
  the pointer, the cell it points to at the moment it is stored. Isabelle admits no
  identifier that ends in an underscore: the members \<^verbatim>\<open>map_\<close>, \<^verbatim>\<open>forward_\<close> and
  \<^verbatim>\<open>transposed_\<close> are the fields \<open>mx_map\<close>, \<open>mx_forward\<close> and \<open>mx_transposed\<close>.
\<close>

record ('r, 'c, 't) LightweightMatrixStorage =
  mx_map :: "('r \<times> 'c, 't) std_map"
  mx_forward :: "('r, ('c, 't) std_map) std_map"
  mx_transposed :: "('c, ('r, 't) std_map) std_map"

definition LightweightMatrixStorage_ctor :: "('r, 'c, 't) LightweightMatrixStorage" where
  "LightweightMatrixStorage_ctor = \<lparr> mx_map = [], mx_forward = [], mx_transposed = [] \<rparr>"

text \<open>\<^verbatim>\<open>outer[a][b] = cell\<close>: both subscripts insert what is missing.\<close>

definition index_store ::
  "'x::linorder \<Rightarrow> 'y::linorder \<Rightarrow> 't \<Rightarrow> ('x, ('y, 't) std_map) std_map \<Rightarrow> ('x, ('y, 't) std_map) std_map" where
  "index_store a b cell outer =
     (case std_map_subscript a [] outer of (inner, outer1) \<Rightarrow>
        std_map_assign a (std_map_assign b cell inner) outer1)"

text \<open>\<^verbatim>\<open>outer[a].erase(b)\<close>: the subscript inserts an empty inner map when \<^verbatim>\<open>a\<close> is
  missing.\<close>

definition index_erase ::
  "'x::linorder \<Rightarrow> 'y \<Rightarrow> ('x, ('y, 't) std_map) std_map \<Rightarrow> ('x, ('y, 't) std_map) std_map" where
  "index_erase a b outer =
     (case std_map_subscript a [] outer of (inner, outer1) \<Rightarrow>
        std_map_assign a (std_map_erase b inner) outer1)"

text \<open>\<^verbatim>\<open>if (outer[a].empty()) outer.erase(a)\<close>.\<close>

definition index_prune ::
  "'x::linorder \<Rightarrow> ('x, ('y, 't) std_map) std_map \<Rightarrow> ('x, ('y, 't) std_map) std_map" where
  "index_prune a outer =
     (case std_map_subscript a [] outer of (inner, outer1) \<Rightarrow>
        if inner = [] then std_map_erase a outer1 else outer1)"

text \<open>In \<^verbatim>\<open>DoAdd\<close> the subscript \<^verbatim>\<open>map_[{row, col}]\<close> and the assignment of the new cell to
  it are one \<open>std_map_assign\<close>; a cell that was there is replaced, in the indices too.\<close>

definition DoAdd ::
  "('t \<Rightarrow> 'r::linorder) \<Rightarrow> ('t \<Rightarrow> 'c::linorder) \<Rightarrow> 't \<Rightarrow>
     ('r, 'c, 't) LightweightMatrixStorage \<Rightarrow> ('r, 'c, 't) LightweightMatrixStorage" where
  "DoAdd GetRow GetCol object st =
     (let row = GetRow object; col = GetCol object in
        \<lparr> mx_map = std_map_assign (row, col) object (mx_map st),
          mx_forward = index_store row col object (mx_forward st),
          mx_transposed = index_store col row object (mx_transposed st) \<rparr>)"

definition DoDelete ::
  "'r::linorder \<Rightarrow> 'c::linorder \<Rightarrow>
     ('r, 'c, 't) LightweightMatrixStorage \<Rightarrow> ('r, 'c, 't) LightweightMatrixStorage" where
  "DoDelete row col st =
     (let forward1 = index_erase row col (mx_forward st);
          transposed1 = index_erase col row (mx_transposed st);
          forward2 = index_prune row forward1;
          transposed2 = index_prune col transposed1
      in \<lparr> mx_map = std_map_erase (row, col) (mx_map st),
           mx_forward = forward2,
           mx_transposed = transposed2 \<rparr>)"

definition Matrix_Empty :: "('r, 'c, 't) LightweightMatrixStorage \<Rightarrow> bool" where
  "Matrix_Empty st = (mx_map st = [])"

definition Matrix_Size :: "('r, 'c, 't) LightweightMatrixStorage \<Rightarrow> nat" where
  "Matrix_Size st = length (mx_map st)"

definition Matrix_Has :: "('r, 'c, 't) LightweightMatrixStorage \<Rightarrow> 'r \<Rightarrow> 'c \<Rightarrow> bool" where
  "Matrix_Has st row col = (std_map_find (row, col) (mx_map st) \<noteq> None)"

definition Matrix_Get :: "('r, 'c, 't) LightweightMatrixStorage \<Rightarrow> 'r \<Rightarrow> 'c \<Rightarrow> 't option" where
  "Matrix_Get st row col = std_map_find (row, col) (mx_map st)"

text \<open>\<^verbatim>\<open>Rows()\<close> and \<^verbatim>\<open>Cols()\<close> are read-only views of \<^verbatim>\<open>forward_\<close> and \<^verbatim>\<open>transposed_\<close>;
  \<^verbatim>\<open>OuterAccessor::Has\<close> and \<^verbatim>\<open>operator[]\<close> are \<^verbatim>\<open>find\<close> on the viewed map.\<close>

definition Rows :: "('r, 'c, 't) LightweightMatrixStorage \<Rightarrow> ('r, ('c, 't) std_map) std_map" where
  "Rows st = mx_forward st"

definition Cols :: "('r, 'c, 't) LightweightMatrixStorage \<Rightarrow> ('c, ('r, 't) std_map) std_map" where
  "Cols st = mx_transposed st"

definition Outer_Has :: "('x, ('y, 't) std_map) std_map \<Rightarrow> 'x \<Rightarrow> bool" where
  "Outer_Has view x = (std_map_find x view \<noteq> None)"

definition Outer_At :: "('x, ('y, 't) std_map) std_map \<Rightarrow> 'x \<Rightarrow> ('y, 't) std_map option" where
  "Outer_At view key = std_map_find key view"

definition Add ::
  "('t \<Rightarrow> 'p \<Rightarrow> 'p outcome) \<Rightarrow> ('t \<Rightarrow> 'r::linorder) \<Rightarrow> ('t \<Rightarrow> 'c::linorder) \<Rightarrow> 't \<Rightarrow>
     ('r, 'c, 't) LightweightMatrixStorage \<times> 'p \<Rightarrow> (('r, 'c, 't) LightweightMatrixStorage \<times> 'p) outcome" where
  "Add PersistAdd GetRow GetCol object s =
     (case s of (st, persister) \<Rightarrow>
        (case PersistAdd object persister of
           Done p \<Rightarrow> Done (DoAdd GetRow GetCol object st, p)
         | Throws e p \<Rightarrow> Throws e (st, p)
         | Abort \<Rightarrow> Abort))"

definition Delete ::
  "('r \<Rightarrow> 'c \<Rightarrow> 'p \<Rightarrow> 'p outcome) \<Rightarrow> 'r::linorder \<Rightarrow> 'c::linorder \<Rightarrow>
     ('r, 'c, 't) LightweightMatrixStorage \<times> 'p \<Rightarrow> (('r, 'c, 't) LightweightMatrixStorage \<times> 'p) outcome" where
  "Delete PersistDelete row col s =
     (case s of (st, persister) \<Rightarrow>
        (case PersistDelete row col persister of
           Done p \<Rightarrow> Done (DoDelete row col st, p)
         | Throws e p \<Rightarrow> Throws e (st, p)
         | Abort \<Rightarrow> Abort))"

text \<open>
  The storage after a sequence of calls that each got past the persister: \<^verbatim>\<open>Add\<close> is then
  \<^verbatim>\<open>DoAdd\<close> and \<^verbatim>\<open>Delete\<close> is \<^verbatim>\<open>DoDelete\<close>.
\<close>

datatype ('r, 'c, 't) matrix_call = MatrixAdd 't | MatrixDelete 'r 'c

fun matrix_after ::
  "('t \<Rightarrow> 'r::linorder) \<Rightarrow> ('t \<Rightarrow> 'c::linorder) \<Rightarrow> ('r, 'c, 't) matrix_call list \<Rightarrow>
     ('r, 'c, 't) LightweightMatrixStorage \<Rightarrow> ('r, 'c, 't) LightweightMatrixStorage" where
  "matrix_after GetRow GetCol [] st = st"
| "matrix_after GetRow GetCol (MatrixAdd x # calls) st =
     matrix_after GetRow GetCol calls (DoAdd GetRow GetCol x st)"
| "matrix_after GetRow GetCol (MatrixDelete row col # calls) st =
     matrix_after GetRow GetCol calls (DoDelete row col st)"

text \<open>The pairs (outer key, inner key) that a two-level view reaches, in iteration order.\<close>

definition index_pairs :: "('x, ('y, 't) std_map) std_map \<Rightarrow> ('x \<times> 'y) list" where
  "index_pairs outer = concat (map (\<lambda>entry. map (\<lambda>cell. (fst entry, fst cell)) (snd entry)) outer)"

text \<open>
  The three maps agree on membership: the rows of \<^verbatim>\<open>Rows()\<close> are the rows of the cells, the
  columns of \<^verbatim>\<open>Cols()\<close> are the columns of the cells, and each view reaches exactly the
  (row, column) pairs that are keys of the primary map.
\<close>

definition consistent :: "('r, 'c, 't) LightweightMatrixStorage \<Rightarrow> bool" where
  "consistent st \<longleftrightarrow>
     set (std_map_keys (Rows st)) = fst ` set (std_map_keys (mx_map st)) \<and>
     set (std_map_keys (Cols st)) = snd ` set (std_map_keys (mx_map st)) \<and>
     set (index_pairs (Rows st)) = set (std_map_keys (mx_map st)) \<and>
     set (map prod.swap (index_pairs (Cols st))) = set (std_map_keys (mx_map st))"

subsection \<open>The \<^verbatim>\<open>InMemory\<close> policy\<close>

text \<open>Every persister method of \<^verbatim>\<open>InMemory\<close> has an empty body, and so has \<^verbatim>\<open>Run\<close>.\<close>

definition InMemory_PersistPushBack :: "nat \<Rightarrow> 'a \<Rightarrow> unit \<Rightarrow> unit outcome" where
  "InMemory_PersistPushBack i x p = Done p"

definition InMemory_PersistPopBack :: "nat \<Rightarrow> unit \<Rightarrow> unit outcome" where
  "InMemory_PersistPopBack i p = Done p"

definition InMemory_PersistInsert :: "'t \<Rightarrow> unit \<Rightarrow> unit outcome" where
  "InMemory_PersistInsert x p = Done p"


definition InMemory_PersistAdd :: "'t \<Rightarrow> unit \<Rightarrow> unit outcome" where
  "InMemory_PersistAdd x p = Done p"


section \<open>Text written to and read from the journal\<close>

abbreviation TAB :: char where "TAB \<equiv> CHR 0x09"
abbreviation LF :: char where "LF \<equiv> CHR 0x0A"
abbreviation NUL :: char where "NUL \<equiv> CHR 0x00"

text \<open>\<^verbatim>\<open>ostream << n\<close> for an unsigned integer: its decimal digits, no sign, no padding.\<close>

definition digit_char :: "nat \<Rightarrow> char" where
  "digit_char d = ''0123456789'' ! d"

function ToString :: "nat \<Rightarrow> string" where
  "ToString n = (if n < 10 then [digit_char n] else ToString (n div 10) @ [digit_char (n mod 10)])"
  by pat_completeness auto
termination
  by (relation "measure (\<lambda>n. n)") auto

declare ToString.simps [simp del]

fun index_of :: "'a \<Rightarrow> 'a list \<Rightarrow> nat option" where
  "index_of x [] = None"
| "index_of x (y # ys) = (if x = y then Some 0 else map_option Suc (index_of x ys))"

definition digit_value :: "char \<Rightarrow> nat option" where
  "digit_value c = index_of c ''0123456789''"

text \<open>
  \<^verbatim>\<open>bricks::strings::FromString<size_t>\<close> is not among the sources; its test
  (\<^verbatim>\<open>Bricks/strings/test.cc\<close>, \<^verbatim>\<open>Util.FromString\<close>) reads a decimal number and gives 0
  for \<^verbatim>\<open>""\<close>, \<^verbatim>\<open>"foo"\<close> and \<^verbatim>\<open>"\n"\<close>. The model reads the leading decimal digits and
  stops at the first other character. The journal only holds what \<^verbatim>\<open>ostream << size_t\<close>
  wrote, so neither a sign, nor leading white space, nor a value beyond 64 bits is read.
\<close>

fun parse_digits :: "nat \<Rightarrow> string \<Rightarrow> nat" where
  "parse_digits acc [] = acc"
| "parse_digits acc (c # cs) =
     (case digit_value c of None \<Rightarrow> acc | Some d \<Rightarrow> parse_digits (acc * 10 + d) cs)"

definition FromString_size_t :: "string \<Rightarrow> nat" where
  "FromString_size_t s = parse_digits 0 s"

text \<open>What is left of \<open>s\<close> after its first \<open>sep\<close> (nothing when there is none).\<close>

definition after_first :: "char \<Rightarrow> string \<Rightarrow> string" where
  "after_first sep s = drop 1 (dropWhile (\<lambda>c. c \<noteq> sep) s)"

text \<open>
  \<^verbatim>\<open>bricks::strings::Split(s, sep)\<close> is not among the sources either; by its test
  (\<^verbatim>\<open>JoinAndSplit.Split\<close>) it cuts at every separator and, by default, skips empty fields:
  \<^verbatim>\<open>Split(",,one,,,two,,,three,,", ',')\<close> is \<^verbatim>\<open>{"one", "two", "three"}\<close>.
\<close>

function Split :: "string \<Rightarrow> char \<Rightarrow> string list" where
  "Split [] sep = []"
| "Split (c # cs) sep =
     (let field = takeWhile (\<lambda>x. x \<noteq> sep) (c # cs) in
        (if field = [] then [] else [field]) @ Split (after_first sep (c # cs)) sep)"
  by pat_completeness auto
termination
  by (relation "measure (\<lambda>(s, sep). length s)")
     (auto simp: after_first_def less_Suc_eq_le
           intro: le_trans [OF diff_le_self length_dropWhile_le])

text \<open>The loop \<^verbatim>\<open>for (std::string line; std::getline(fi, line);)\<close> over a file's content:
  a line ends at a line feed or at the end of the file, and nothing follows the last
  line feed.\<close>

function getlines :: "string \<Rightarrow> string list" where
  "getlines [] = []"
| "getlines (c # cs) =
     takeWhile (\<lambda>x. x \<noteq> LF) (c # cs) # getlines (after_first LF (c # cs))"
  by pat_completeness auto
termination
  by (relation "measure length")
     (auto simp: after_first_def less_Suc_eq_le
           intro: le_trans [OF diff_le_self length_dropWhile_le])

text \<open>A \<^verbatim>\<open>const char*\<close> into a \<^verbatim>\<open>std::string\<close> is read up to the first NUL.\<close>

definition c_str :: "string \<Rightarrow> string" where
  "c_str s = takeWhile (\<lambda>c. c \<noteq> NUL) s"

text \<open>
  The codec (\<^verbatim>\<open>JSON(x)\<close> and \<^verbatim>\<open>ParseJSON<T>(text)\<close> of \<^verbatim>\<open>TypeSystem/Serialization/json.h\<close>)
  is outside the sources: it is a parameter, one pair of functions per serialised type.
  \<^verbatim>\<open>ParseJSON\<close> throws on a text it cannot parse.
\<close>

record 'a codec =
  JSON :: "'a \<Rightarrow> string"
  ParseJSON :: "string \<Rightarrow> 'a option"

section \<open>The \<^verbatim>\<open>ReplayFromAndAppendToFile\<close> policy\<close>

subsection \<open>\<^verbatim>\<open>Instance\<close>\<close>

text \<open>
  A hook is a \<^verbatim>\<open>std::function<void(const char*)>\<close> that captured a storage by reference:
  a function of the payload on the storages \<open>'w\<close> of the program. An empty
  \<^verbatim>\<open>std::function\<close> is \<open>None\<close>. The table \<^verbatim>\<open>hooks_\<close> is only ever subscripted and searched,
  never iterated, so it is a map from names. \<^verbatim>\<open>output_file_\<close> is a \<^verbatim>\<open>unique_ptr\<close> to a
  \<^verbatim>\<open>std::ofstream\<close>: unset, or a stream that is good or has failed. The members \<^verbatim>\<open>run_\<close>,
  \<^verbatim>\<open>filename_\<close>, \<^verbatim>\<open>output_file_\<close> and \<^verbatim>\<open>hooks_\<close> lose their final underscore.
\<close>

type_synonym 'w hook = "(string \<Rightarrow> 'w \<Rightarrow> 'w outcome) option"

datatype ofstream = Good | Failed

record 'w Instance =
  run :: bool
  filename :: string
  output_file :: "ofstream option"
  hooks :: "string \<rightharpoonup> 'w hook"

definition Instance_ctor :: "string \<Rightarrow> 'w Instance" where
  "Instance_ctor name = \<lparr> run = False, filename = name, output_file = None, hooks = Map.empty \<rparr>"

text \<open>
  What an \<^verbatim>\<open>Instance\<close> acts on besides itself. The files: a missing file reads as empty,
  \<open>can_open\<close> says whether a file can be opened for appending, and \<open>device n\<close> what
  becomes of the \<open>n\<close>-th write (\<open>writes\<close> counts them): \<open>None\<close> when it lands, \<open>Some k\<close>
  when it fails after at most \<open>k\<close> characters. The clock \<^verbatim>\<open>bricks::time::Now()\<close>, which is
  outside the sources: its \<open>n\<close>-th reading is \<open>now n\<close>, whatever that is.
\<close>

record 'w durable =
  inst :: "'w Instance"
  disk :: "string \<rightharpoonup> string"
  now :: "nat \<Rightarrow> 64 word"
  tick :: nat
  can_open :: "string \<Rightarrow> bool"
  device :: "nat \<Rightarrow> nat option"
  writes :: nat

definition read_file :: "(string \<rightharpoonup> string) \<Rightarrow> string \<Rightarrow> string" where
  "read_file d name = (case d name of None \<Rightarrow> [] | Some content \<Rightarrow> content)"

text \<open>
  \<^verbatim>\<open>(*output_file_) << text\<close>. On a good stream the text lands at the end of the file, or
  the write fails, at most a part of the text lands and the stream has failed from then on;
  on a failed stream nothing happens. The code never looks at the state of the stream after
  a write, and never clears it. The head of a line and the rest of it are two writes.
\<close>

definition stream_write :: "string \<Rightarrow> 'w durable \<Rightarrow> 'w durable" where
  "stream_write text env =
     (case output_file (inst env) of
        Some Good \<Rightarrow>
          (case device env (writes env) of
             None \<Rightarrow>
               env\<lparr> disk := (disk env)(filename (inst env) \<mapsto>
                             read_file (disk env) (filename (inst env)) @ text),
                    writes := Suc (writes env) \<rparr>
           | Some k \<Rightarrow>
               env\<lparr> inst := (inst env)\<lparr> output_file := Some Failed \<rparr>,
                    disk := (disk env)(filename (inst env) \<mapsto>
                             read_file (disk env) (filename (inst env)) @ take k text),
                    writes := Suc (writes env) \<rparr>)
      | Some Failed \<Rightarrow> env
      | None \<Rightarrow> env)"

text \<open>The content of the journal, the file of the \<^verbatim>\<open>Instance\<close>.\<close>

definition journal :: "'w durable \<Rightarrow> string" where
  "journal env = read_file (disk env) (filename (inst env))"

definition RegisterHook :: "string \<Rightarrow> 'w hook \<Rightarrow> 'w Instance \<Rightarrow> 'w Instance outcome" where
  "RegisterHook hook_name hook i =
     (case hook of
        None \<Rightarrow> Abort
      | Some f \<Rightarrow>
          (let placeholder = (case hooks i hook_name of None \<Rightarrow> None | Some h \<Rightarrow> h) in
             (case placeholder of
                Some g \<Rightarrow> Abort
              | None \<Rightarrow> Done (i\<lparr> hooks := (hooks i)(hook_name \<mapsto> Some f) \<rparr>))))"

text \<open>One line of the journal, \<^verbatim>\<open>TIMESTAMP '\t' HOOK_NAME '\t' USER DATA\<close>, in \<^verbatim>\<open>Run\<close>.\<close>

definition replay_line :: "(string \<rightharpoonup> 'w hook) \<Rightarrow> string \<Rightarrow> 'w \<Rightarrow> 'w outcome" where
  "replay_line table line w =
     (if TAB \<notin> set line then Abort
      else let rest = after_first TAB line in
        if TAB \<notin> set rest then Abort
        else (case table (takeWhile (\<lambda>c. c \<noteq> TAB) rest) of
                None \<Rightarrow> Abort
              | Some None \<Rightarrow> Throws BadFunctionCall w
              | Some (Some f) \<Rightarrow> f (c_str (after_first TAB rest)) w))"

fun replay :: "(string \<rightharpoonup> 'w hook) \<Rightarrow> string list \<Rightarrow> 'w \<Rightarrow> 'w outcome" where
  "replay table [] w = Done w"
| "replay table (line # rest) w =
     (case replay_line table line w of
        Done w' \<Rightarrow> replay table rest w'
      | Throws e w' \<Rightarrow> Throws e w'
      | Abort \<Rightarrow> Abort)"

text \<open>
  \<^verbatim>\<open>Run()\<close>: the two assertions around \<^verbatim>\<open>run_ = true\<close>, the replay of every line, and the
  output stream. Opening the stream for appending creates a missing file and leaves the
  content alone; when the file cannot be opened the stream is not good and
  \<^verbatim>\<open>assert(output_file_->good())\<close> fails. An exception that leaves a hook leaves \<^verbatim>\<open>Run()\<close>
  too, after \<^verbatim>\<open>run_\<close> was set.
\<close>

definition Run :: "'w \<times> 'w durable \<Rightarrow> ('w \<times> 'w durable) outcome" where
  "Run s =
     (case s of (w, env) \<Rightarrow>
        if run (inst env) then Abort
        else let env1 = env\<lparr> inst := (inst env)\<lparr> run := True \<rparr> \<rparr> in
          if output_file (inst env1) \<noteq> None then Abort
          else (case replay (hooks (inst env1))
                        (getlines (read_file (disk env1) (filename (inst env1)))) w of
                  Done w' \<Rightarrow>
                    if can_open env1 (filename (inst env1))
                    then Done (w', env1\<lparr> inst := (inst env1)\<lparr> output_file := Some Good \<rparr>,
                                         disk := (disk env1)(filename (inst env1) \<mapsto>
                                                   read_file (disk env1) (filename (inst env1))) \<rparr>)
                    else Abort
                | Throws e w' \<Rightarrow> Throws e (w', env1)
                | Abort \<Rightarrow> Abort))"

text \<open>\<^verbatim>\<open>Persist\<close>: the assertion that the stream is set, a reading of the clock, and the
  head of the line.\<close>

definition Persist :: "string \<Rightarrow> 'w durable \<Rightarrow> 'w durable outcome" where
  "Persist hook_name env =
     (case output_file (inst env) of
        None \<Rightarrow> Abort
      | Some stream \<Rightarrow>
          Done (stream_write (ToString (unat (now env (tick env))) @ [TAB] @ hook_name @ [TAB])
                  (env\<lparr> tick := Suc (tick env) \<rparr>)))"

text \<open>The line that a persister method adds to the journal when it is called in \<open>env\<close> and
  its writes land: the head that \<^verbatim>\<open>Persist\<close> writes, then the payload and the line feed.\<close>

definition entry_head :: "'w durable \<Rightarrow> string \<Rightarrow> string" where
  "entry_head env hook_name = ToString (unat (now env (tick env))) @ [TAB] @ hook_name @ [TAB]"

definition entry :: "'w durable \<Rightarrow> string \<Rightarrow> string \<Rightarrow> string" where
  "entry env hook_name payload = entry_head env hook_name @ payload @ [LF]"

subsection \<open>\<^verbatim>\<open>VectorPersister\<close>\<close>

text \<open>
  The persisters of \<^verbatim>\<open>ReplayFromAndAppendToFileUsingCereal\<close> are the same code over the
  other codec, \<^verbatim>\<open>CerealizeJSON\<close> and \<^verbatim>\<open>CerealizeParseJSON\<close>; with the codec a parameter, the
  definitions below are both.
\<close>

text \<open>
  The two lambdas registered by the constructor capture \<^verbatim>\<open>storage\<close> by reference: \<open>get\<close>
  and \<open>put\<close> read and write that storage inside the storages \<open>'w\<close> of the program.
\<close>

definition push_back_hook ::
  "'a codec \<Rightarrow> ('w \<Rightarrow> 'a VectorStorage) \<Rightarrow> ('a VectorStorage \<Rightarrow> 'w \<Rightarrow> 'w) \<Rightarrow> string \<Rightarrow> 'w \<Rightarrow> 'w outcome" where
  "push_back_hook cd get put data w =
     (let index = FromString_size_t data in
        if index \<noteq> length (get w) then Abort
        else if TAB \<notin> set data then Abort
        else (case ParseJSON cd (after_first TAB data) of
                None \<Rightarrow> Throws ParseJSONException w
              | Some x \<Rightarrow> Done (put (get w @ [x]) w)))"

definition pop_back_hook ::
  "('w \<Rightarrow> 'a VectorStorage) \<Rightarrow> ('a VectorStorage \<Rightarrow> 'w \<Rightarrow> 'w) \<Rightarrow> string \<Rightarrow> 'w \<Rightarrow> 'w outcome" where
  "pop_back_hook get put data w =
     (let index = FromString_size_t data in
        if index \<noteq> length (get w) then Abort
        else if get w = [] then Abort
        else Done (put (butlast (get w)) w))"

definition VectorPersister ::
  "'a codec \<Rightarrow> string \<Rightarrow> ('w \<Rightarrow> 'a VectorStorage) \<Rightarrow> ('a VectorStorage \<Rightarrow> 'w \<Rightarrow> 'w) \<Rightarrow>
     'w Instance \<Rightarrow> 'w Instance outcome" where
  "VectorPersister cd name get put i =
     (case RegisterHook (name @ ''.push_back'') (Some (push_back_hook cd get put)) i of
        Done i1 \<Rightarrow> RegisterHook (name @ ''.pop_back'') (Some (pop_back_hook get put)) i1
      | Throws e i1 \<Rightarrow> Throws e i1
      | Abort \<Rightarrow> Abort)"

definition Durable_PersistPushBack ::
  "'a codec \<Rightarrow> string \<Rightarrow> nat \<Rightarrow> 'a \<Rightarrow> 'w durable \<Rightarrow> 'w durable outcome" where
  "Durable_PersistPushBack cd name i x env =
     (case Persist (name @ ''.push_back'') env of
        Done env1 \<Rightarrow> Done (stream_write (ToString i @ [TAB] @ JSON cd x @ [LF]) env1)
      | Throws e env1 \<Rightarrow> Throws e env1
      | Abort \<Rightarrow> Abort)"

definition Durable_PersistPopBack :: "string \<Rightarrow> nat \<Rightarrow> 'w durable \<Rightarrow> 'w durable outcome" where
  "Durable_PersistPopBack name i env =
     (case Persist (name @ ''.pop_back'') env of
        Done env1 \<Rightarrow> Done (stream_write (ToString i @ [LF]) env1)
      | Throws e env1 \<Rightarrow> Throws e env1
      | Abort \<Rightarrow> Abort)"

subsection \<open>\<^verbatim>\<open>OrderedDictionaryPersister\<close>\<close>

definition insert_hook ::
  "'t codec \<Rightarrow> ('t \<Rightarrow> 'k::linorder) \<Rightarrow> ('w \<Rightarrow> ('k, 't) OrderedDictionaryStorage) \<Rightarrow>
     (('k, 't) OrderedDictionaryStorage \<Rightarrow> 'w \<Rightarrow> 'w) \<Rightarrow> string \<Rightarrow> 'w \<Rightarrow> 'w outcome" where
  "insert_hook cd GetKey get put data w =
     (case ParseJSON cd data of
        None \<Rightarrow> Throws ParseJSONException w
      | Some x \<Rightarrow> Done (put (DoInsert GetKey x (get w)) w))"

definition erase_hook ::
  "'k codec \<Rightarrow> ('w \<Rightarrow> ('k, 't) OrderedDictionaryStorage) \<Rightarrow>
     (('k, 't) OrderedDictionaryStorage \<Rightarrow> 'w \<Rightarrow> 'w) \<Rightarrow> string \<Rightarrow> 'w \<Rightarrow> 'w outcome" where
  "erase_hook kcd get put data w =
     (case ParseJSON kcd data of
        None \<Rightarrow> Throws ParseJSONException w
      | Some k \<Rightarrow> Done (put (std_map_erase k (get w)) w))"

definition OrderedDictionaryPersister ::
  "'t codec \<Rightarrow> 'k codec \<Rightarrow> ('t \<Rightarrow> 'k::linorder) \<Rightarrow> string \<Rightarrow>
     ('w \<Rightarrow> ('k, 't) OrderedDictionaryStorage) \<Rightarrow> (('k, 't) OrderedDictionaryStorage \<Rightarrow> 'w \<Rightarrow> 'w) \<Rightarrow>
     'w Instance \<Rightarrow> 'w Instance outcome" where
  "OrderedDictionaryPersister cd kcd GetKey name get put i =
     (case RegisterHook (name @ ''.insert'') (Some (insert_hook cd GetKey get put)) i of
        Done i1 \<Rightarrow> RegisterHook (name @ ''.erase'') (Some (erase_hook kcd get put)) i1
      | Throws e i1 \<Rightarrow> Throws e i1
      | Abort \<Rightarrow> Abort)"

definition Durable_PersistInsert :: "'t codec \<Rightarrow> string \<Rightarrow> 't \<Rightarrow> 'w durable \<Rightarrow> 'w durable outcome" where
  "Durable_PersistInsert cd name x env =
     (case Persist (name @ ''.insert'') env of
        Done env1 \<Rightarrow> Done (stream_write (JSON cd x @ [LF]) env1)
      | Throws e env1 \<Rightarrow> Throws e env1
      | Abort \<Rightarrow> Abort)"

definition Durable_PersistErase :: "'k codec \<Rightarrow> string \<Rightarrow> 'k \<Rightarrow> 'w durable \<Rightarrow> 'w durable outcome" where
  "Durable_PersistErase kcd name k env =
     (case Persist (name @ ''.erase'') env of
        Done env1 \<Rightarrow> Done (stream_write (JSON kcd k @ [LF]) env1)
      | Throws e env1 \<Rightarrow> Throws e env1
      | Abort \<Rightarrow> Abort)"

subsection \<open>\<^verbatim>\<open>LightweightMatrixPersister\<close>\<close>

definition add_hook ::
  "'t codec \<Rightarrow> ('t \<Rightarrow> 'r::linorder) \<Rightarrow> ('t \<Rightarrow> 'c::linorder) \<Rightarrow>
     ('w \<Rightarrow> ('r, 'c, 't) LightweightMatrixStorage) \<Rightarrow>
     (('r, 'c, 't) LightweightMatrixStorage \<Rightarrow> 'w \<Rightarrow> 'w) \<Rightarrow> string \<Rightarrow> 'w \<Rightarrow> 'w outcome" where
  "add_hook cd GetRow GetCol get put data w =
     (case ParseJSON cd data of
        None \<Rightarrow> Throws ParseJSONException w
      | Some x \<Rightarrow> Done (put (DoAdd GetRow GetCol x (get w)) w))"

definition delete_hook ::
  "'r::linorder codec \<Rightarrow> 'c::linorder codec \<Rightarrow>
     ('w \<Rightarrow> ('r, 'c, 't) LightweightMatrixStorage) \<Rightarrow>
     (('r, 'c, 't) LightweightMatrixStorage \<Rightarrow> 'w \<Rightarrow> 'w) \<Rightarrow> string \<Rightarrow> 'w \<Rightarrow> 'w outcome" where
  "delete_hook rcd ccd get put data w =
     (let fields = Split data TAB in
        if length fields \<noteq> 2 then Abort
        else (case ParseJSON rcd (fields ! 0) of
                None \<Rightarrow> Throws ParseJSONException w
              | Some row \<Rightarrow>
                  (case ParseJSON ccd (fields ! 1) of
                     None \<Rightarrow> Throws ParseJSONException w
                   | Some col \<Rightarrow> Done (put (DoDelete row col (get w)) w))))"

definition LightweightMatrixPersister ::
  "'t codec \<Rightarrow> 'r::linorder codec \<Rightarrow> 'c::linorder codec \<Rightarrow> ('t \<Rightarrow> 'r) \<Rightarrow> ('t \<Rightarrow> 'c) \<Rightarrow> string \<Rightarrow>
     ('w \<Rightarrow> ('r, 'c, 't) LightweightMatrixStorage) \<Rightarrow>
     (('r, 'c, 't) LightweightMatrixStorage \<Rightarrow> 'w \<Rightarrow> 'w) \<Rightarrow>
     'w Instance \<Rightarrow> 'w Instance outcome" where
  "LightweightMatrixPersister cd rcd ccd GetRow GetCol name get put i =
     (case RegisterHook (name @ ''.add'') (Some (add_hook cd GetRow GetCol get put)) i of
        Done i1 \<Rightarrow> RegisterHook (name @ ''.delete'') (Some (delete_hook rcd ccd get put)) i1
      | Throws e i1 \<Rightarrow> Throws e i1
      | Abort \<Rightarrow> Abort)"

definition Durable_PersistAdd :: "'t codec \<Rightarrow> string \<Rightarrow> 't \<Rightarrow> 'w durable \<Rightarrow> 'w durable outcome" where
  "Durable_PersistAdd cd name x env =
     (case Persist (name @ ''.add'') env of
        Done env1 \<Rightarrow> Done (stream_write (JSON cd x @ [LF]) env1)
      | Throws e env1 \<Rightarrow> Throws e env1
      | Abort \<Rightarrow> Abort)"

definition Durable_PersistDelete ::
  "'r codec \<Rightarrow> 'c codec \<Rightarrow> string \<Rightarrow> 'r \<Rightarrow> 'c \<Rightarrow> 'w durable \<Rightarrow> 'w durable outcome" where
  "Durable_PersistDelete rcd ccd name row col env =
     (case Persist (name @ ''.delete'') env of
        Done env1 \<Rightarrow> Done (stream_write (JSON rcd row @ [TAB] @ JSON ccd col @ [LF]) env1)
      | Throws e env1 \<Rightarrow> Throws e env1
      | Abort \<Rightarrow> Abort)"

subsection \<open>A program: containers on one \<^verbatim>\<open>Instance\<close>\<close>

text \<open>
  \<^verbatim>\<open>Vector<T, POLICY>\<close>, \<^verbatim>\<open>OrderedDictionary<T, POLICY>\<close> and \<^verbatim>\<open>LightweightMatrix<T, POLICY>\<close>
  each join the API of a container with the policy's persister, and their constructors
  take a name and the \<^verbatim>\<open>Instance\<close>. A container is what its declaration fixes: the kind,
  the name, the codecs of the serialised types and the key, row and column of a record. A
  program is the list of its containers in the order of their construction.
\<close>

datatype ('a, 'k, 't, 'r, 'c, 'm) container =
    AVector string "'a codec"
  | ADictionary string "'t codec" "'k codec" "'t \<Rightarrow> 'k"
  | AMatrix string "'m codec" "'r codec" "'c codec" "'m \<Rightarrow> 'r" "'m \<Rightarrow> 'c"

type_synonym ('a, 'k, 't, 'r, 'c, 'm) program = "('a, 'k, 't, 'r, 'c, 'm) container list"

text \<open>The storage of each container, by kind and name; that of a name which no container
  of the program has is empty and stays so.\<close>

record ('a, 'k, 't, 'r, 'c, 'm) storages =
  vectors :: "string \<Rightarrow> 'a VectorStorage"
  dictionaries :: "string \<Rightarrow> ('k, 't) OrderedDictionaryStorage"
  matrices :: "string \<Rightarrow> ('r, 'c, 'm) LightweightMatrixStorage"

definition no_storages :: "('a, 'k, 't, 'r, 'c, 'm) storages" where
  "no_storages =
     \<lparr> vectors = (\<lambda>name. []), dictionaries = (\<lambda>name. []),
       matrices = (\<lambda>name. LightweightMatrixStorage_ctor) \<rparr>"

definition vector_of :: "string \<Rightarrow> ('a, 'k, 't, 'r, 'c, 'm) storages \<Rightarrow> 'a VectorStorage" where
  "vector_of name w = vectors w name"

definition put_vector ::
  "string \<Rightarrow> 'a VectorStorage \<Rightarrow> ('a, 'k, 't, 'r, 'c, 'm) storages \<Rightarrow> ('a, 'k, 't, 'r, 'c, 'm) storages" where
  "put_vector name v w = w\<lparr> vectors := (vectors w)(name := v) \<rparr>"

definition dictionary_of ::
  "string \<Rightarrow> ('a, 'k, 't, 'r, 'c, 'm) storages \<Rightarrow> ('k, 't) OrderedDictionaryStorage" where
  "dictionary_of name w = dictionaries w name"

definition put_dictionary ::
  "string \<Rightarrow> ('k, 't) OrderedDictionaryStorage \<Rightarrow> ('a, 'k, 't, 'r, 'c, 'm) storages \<Rightarrow>
     ('a, 'k, 't, 'r, 'c, 'm) storages" where
  "put_dictionary name d w = w\<lparr> dictionaries := (dictionaries w)(name := d) \<rparr>"

definition matrix_of ::
  "string \<Rightarrow> ('a, 'k, 't, 'r, 'c, 'm) storages \<Rightarrow> ('r, 'c, 'm) LightweightMatrixStorage" where
  "matrix_of name w = matrices w name"

definition put_matrix ::
  "string \<Rightarrow> ('r, 'c, 'm) LightweightMatrixStorage \<Rightarrow> ('a, 'k, 't, 'r, 'c, 'm) storages \<Rightarrow>
     ('a, 'k, 't, 'r, 'c, 'm) storages" where
  "put_matrix name m w = w\<lparr> matrices := (matrices w)(name := m) \<rparr>"

text \<open>The constructor of one container, and those of a program in their order.\<close>

fun construct_one ::
  "('a, 'k::linorder, 't, 'r::linorder, 'c::linorder, 'm) container \<Rightarrow>
     ('a, 'k, 't, 'r, 'c, 'm) storages Instance \<Rightarrow> ('a, 'k, 't, 'r, 'c, 'm) storages Instance outcome" where
  "construct_one (AVector name cd) i = VectorPersister cd name (vector_of name) (put_vector name) i"
| "construct_one (ADictionary name cd kcd GetKey) i =
     OrderedDictionaryPersister cd kcd GetKey name (dictionary_of name) (put_dictionary name) i"
| "construct_one (AMatrix name cd rcd ccd GetRow GetCol) i =
     LightweightMatrixPersister cd rcd ccd GetRow GetCol name (matrix_of name) (put_matrix name) i"

fun construct ::
  "('a, 'k::linorder, 't, 'r::linorder, 'c::linorder, 'm) program \<Rightarrow>
     ('a, 'k, 't, 'r, 'c, 'm) storages Instance \<Rightarrow> ('a, 'k, 't, 'r, 'c, 'm) storages Instance outcome" where
  "construct [] i = Done i"
| "construct (c # cs) i =
     (case construct_one c i of
        Done i1 \<Rightarrow> construct cs i1
      | Throws e i1 \<Rightarrow> Throws e i1
      | Abort \<Rightarrow> Abort)"

text \<open>
  A process on the machine \<open>env\<close> (its files, clock and device; its \<open>inst\<close> is replaced):
  the \<^verbatim>\<open>Instance\<close> over a file, then the containers, then \<^verbatim>\<open>Run()\<close>.
\<close>

definition start ::
  "('a, 'k::linorder, 't, 'r::linorder, 'c::linorder, 'm) program \<Rightarrow> string \<Rightarrow>
     ('a, 'k, 't, 'r, 'c, 'm) storages durable \<Rightarrow>
     (('a, 'k, 't, 'r, 'c, 'm) storages \<times> ('a, 'k, 't, 'r, 'c, 'm) storages durable) outcome" where
  "start prog file env =
     (case construct prog (Instance_ctor file) of
        Done i \<Rightarrow> Run (no_storages, env\<lparr> inst := i \<rparr>)
      | Throws e i \<Rightarrow> Abort
      | Abort \<Rightarrow> Abort)"

text \<open>The container of a kind and name in a program: the first constructed, which is the
  only one when the constructors all returned.\<close>

fun vector_named :: "('a, 'k, 't, 'r, 'c, 'm) program \<Rightarrow> string \<Rightarrow> 'a codec option" where
  "vector_named [] name = None"
| "vector_named (AVector n cd # cs) name = (if n = name then Some cd else vector_named cs name)"
| "vector_named (c # cs) name = vector_named cs name"

fun dictionary_named ::
  "('a, 'k, 't, 'r, 'c, 'm) program \<Rightarrow> string \<Rightarrow> ('t codec \<times> 'k codec \<times> ('t \<Rightarrow> 'k)) option" where
  "dictionary_named [] name = None"
| "dictionary_named (ADictionary n cd kcd GetKey # cs) name =
     (if n = name then Some (cd, kcd, GetKey) else dictionary_named cs name)"
| "dictionary_named (c # cs) name = dictionary_named cs name"

fun matrix_named ::
  "('a, 'k, 't, 'r, 'c, 'm) program \<Rightarrow> string \<Rightarrow>
     ('m codec \<times> 'r codec \<times> 'c codec \<times> ('m \<Rightarrow> 'r) \<times> ('m \<Rightarrow> 'c)) option" where
  "matrix_named [] name = None"
| "matrix_named (AMatrix n cd rcd ccd GetRow GetCol # cs) name =
     (if n = name then Some (cd, rcd, ccd, GetRow, GetCol) else matrix_named cs name)"
| "matrix_named (c # cs) name = matrix_named cs name"

text \<open>A mutating call of the program names the container it is made on.\<close>

datatype ('a, 'k, 't, 'r, 'c, 'm) call =
    CallPushBack string 'a
  | CallPopBack string
  | CallInsert string 't
  | CallErase string 'k
  | CallAdd string 'm
  | CallDelete string 'r 'c

definition in_storages :: "('s \<Rightarrow> 'w) \<Rightarrow> ('s \<times> 'p) outcome \<Rightarrow> ('w \<times> 'p) outcome" where
  "in_storages put r =
     (case r of
        Done (st, p) \<Rightarrow> Done (put st, p)
      | Throws e (st, p) \<Rightarrow> Throws e (put st, p)
      | Abort \<Rightarrow> Abort)"

text \<open>Whether the program has the container that a call is made on. A call on a container
  that the program has not is no call of the program; \<open>perform\<close> gives it no result.\<close>

fun on_program :: "('a, 'k, 't, 'r, 'c, 'm) program \<Rightarrow> ('a, 'k, 't, 'r, 'c, 'm) call \<Rightarrow> bool" where
  "on_program prog (CallPushBack name x) = (vector_named prog name \<noteq> None)"
| "on_program prog (CallPopBack name) = (vector_named prog name \<noteq> None)"
| "on_program prog (CallInsert name x) = (dictionary_named prog name \<noteq> None)"
| "on_program prog (CallErase name k) = (dictionary_named prog name \<noteq> None)"
| "on_program prog (CallAdd name x) = (matrix_named prog name \<noteq> None)"
| "on_program prog (CallDelete name row col) = (matrix_named prog name \<noteq> None)"

fun perform ::
  "('a, 'k::linorder, 't, 'r::linorder, 'c::linorder, 'm) program \<Rightarrow> ('a, 'k, 't, 'r, 'c, 'm) call \<Rightarrow>
     ('a, 'k, 't, 'r, 'c, 'm) storages \<times> 'p durable \<Rightarrow>
     (('a, 'k, 't, 'r, 'c, 'm) storages \<times> 'p durable) outcome" where
  "perform prog (CallPushBack name x) (w, env) =
     (case vector_named prog name of
        None \<Rightarrow> Abort
      | Some cd \<Rightarrow>
          in_storages (\<lambda>v. put_vector name v w)
            (PushBack (Durable_PersistPushBack cd name) x (vector_of name w, env)))"
| "perform prog (CallPopBack name) (w, env) =
     (case vector_named prog name of
        None \<Rightarrow> Abort
      | Some cd \<Rightarrow>
          in_storages (\<lambda>v. put_vector name v w)
            (PopBack (Durable_PersistPopBack name) (vector_of name w, env)))"
| "perform prog (CallInsert name x) (w, env) =
     (case dictionary_named prog name of
        None \<Rightarrow> Abort
      | Some (cd, kcd, GetKey) \<Rightarrow>
          in_storages (\<lambda>d. put_dictionary name d w)
            (Insert (Durable_PersistInsert cd name) GetKey x (dictionary_of name w, env)))"
| "perform prog (CallErase name k) (w, env) =
     (case dictionary_named prog name of
        None \<Rightarrow> Abort
      | Some (cd, kcd, GetKey) \<Rightarrow>
          in_storages (\<lambda>d. put_dictionary name d w)
            (Erase (Durable_PersistErase kcd name) k (dictionary_of name w, env)))"
| "perform prog (CallAdd name x) (w, env) =
     (case matrix_named prog name of
        None \<Rightarrow> Abort
      | Some (cd, rcd, ccd, GetRow, GetCol) \<Rightarrow>
          in_storages (\<lambda>m. put_matrix name m w)
            (Add (Durable_PersistAdd cd name) GetRow GetCol x (matrix_of name w, env)))"
| "perform prog (CallDelete name row col) (w, env) =
     (case matrix_named prog name of
        None \<Rightarrow> Abort
      | Some (cd, rcd, ccd, GetRow, GetCol) \<Rightarrow>
          in_storages (\<lambda>m. put_matrix name m w)
            (Delete (Durable_PersistDelete rcd ccd name) row col (matrix_of name w, env)))"

text \<open>Calls one after the other; the first that does not return ends the sequence.\<close>

fun perform_all ::
  "('a, 'k::linorder, 't, 'r::linorder, 'c::linorder, 'm) program \<Rightarrow> ('a, 'k, 't, 'r, 'c, 'm) call list \<Rightarrow>
     ('a, 'k, 't, 'r, 'c, 'm) storages \<times> 'p durable \<Rightarrow>
     (('a, 'k, 't, 'r, 'c, 'm) storages \<times> 'p durable) outcome" where
  "perform_all prog [] s = Done s"
| "perform_all prog (call # calls) s =
     (case perform prog call s of
        Done s' \<Rightarrow> perform_all prog calls s'
      | Throws e s' \<Rightarrow> Throws e s'
      | Abort \<Rightarrow> Abort)"

section \<open>\<^verbatim>\<open>TransactionMeta\<close> (\<^verbatim>\<open>Storage/transaction.h\<close>)\<close>

text \<open>
  \<^verbatim>\<open>CURRENT_STRUCT(TransactionMeta)\<close> declares three public fields and one constructor, the
  default one, which sets both timestamps to zero. \<^verbatim>\<open>std::chrono::microseconds\<close> counts in
  a signed integer; \<^verbatim>\<open>TransactionMetaFields\<close> is a \<^verbatim>\<open>std::map<std::string, std::string>\<close>.
  Assigning to a public field of the struct is the update of the record's field. The
  member \<^verbatim>\<open>fields\<close> is the field \<open>meta_fields\<close>.
\<close>

record TransactionMeta =
  begin_us :: int
  end_us :: int
  meta_fields :: "(string, string) std_map"

definition TransactionMeta_ctor :: TransactionMeta where
  "TransactionMeta_ctor = \<lparr> begin_us = 0, end_us = 0, meta_fields = [] \<rparr>"

section \<open>Persist, then mutate\<close>

text \<open>
  How the result of a mutating call follows the result of its persister: when the persister
  returns, the storage is the mutated one; when it throws, the exception leaves the call
  and the storage is the one before; when it stops the process, so does the call.
\<close>

definition persist_first :: "'p outcome \<Rightarrow> 's \<Rightarrow> 's \<Rightarrow> ('s \<times> 'p) outcome \<Rightarrow> bool" where
  "persist_first persisted before after result =
     (case persisted of
        Done p \<Rightarrow> result = Done (after, p)
      | Throws e p \<Rightarrow> result = Throws e (before, p)
      | Abort \<Rightarrow> result = Abort)"

text \<open>
  What a method of a \<^verbatim>\<open>ReplayFromAndAppendToFile\<close> persister that was called in \<open>env\<close> and
  returned in \<open>env'\<close> has done to the journal. When the stream is good afterwards, it was
  good before and the journal has grown by exactly the line of the call. When it is not,
  the journal has grown by at most a part of that line. The rest of the \<^verbatim>\<open>Instance\<close> is as
  it was.
\<close>

definition stream_good :: "'w durable \<Rightarrow> bool" where
  "stream_good env \<longleftrightarrow> output_file (inst env) = Some Good"

definition written :: "'w durable \<Rightarrow> string \<Rightarrow> string \<Rightarrow> 'w durable \<Rightarrow> bool" where
  "written env hook_name payload env' \<longleftrightarrow>
     run (inst env') = run (inst env) \<and> filename (inst env') = filename (inst env) \<and>
     hooks (inst env') = hooks (inst env) \<and> output_file (inst env') \<noteq> None \<and>
     (if stream_good env'
      then stream_good env \<and> journal env' = journal env @ entry env hook_name payload
      else prefix (journal env) (journal env') \<and>
           prefix (journal env') (journal env @ entry env hook_name payload))"

text \<open>
  A call through a \<^verbatim>\<open>ReplayFromAndAppendToFile\<close> persister in \<open>env\<close>: with the output
  stream set, the call returns the mutated storage, whatever became of the write; without
  it, \<^verbatim>\<open>Persist\<close> stops the process before anything is written or mutated.
\<close>

definition logged_and_applied ::
  "'w durable \<Rightarrow> string \<Rightarrow> string \<Rightarrow> 's \<Rightarrow> ('s \<times> 'w durable) outcome \<Rightarrow> bool" where
  "logged_and_applied env hook_name payload after result =
     (case output_file (inst env) of
        None \<Rightarrow> result = Abort
      | Some stream \<Rightarrow>
          (case result of
             Done (st, env') \<Rightarrow> st = after \<and> written env hook_name payload env'
           | Throws e s \<Rightarrow> False
           | Abort \<Rightarrow> False))"

section \<open>What replay asks of names and codec\<close>











subsection \<open>A program over booleans\<close>

text \<open>
  A program whose records, keys, rows and columns are all \<^verbatim>\<open>bool\<close>, serialised as JSON does,
  \<^verbatim>\<open>true\<close> and \<^verbatim>\<open>false\<close>: a vector of the name given, a dictionary, a matrix and a second
  vector. Its clock stands still; on a sound device every write lands, on a full one none and nothing of it.
\<close>

definition bool_codec :: "bool codec" where
  "bool_codec =
     \<lparr> JSON = (\<lambda>b. if b then ''true'' else ''false''),
       ParseJSON = (\<lambda>s. if s = ''true'' then Some True else if s = ''false'' then Some False else None) \<rparr>"

definition bool_program :: "string \<Rightarrow> (bool, bool, bool, bool, bool, bool) program" where
  "bool_program name =
     [AVector name bool_codec,
      ADictionary ''d'' bool_codec bool_codec (\<lambda>x. x),
      AMatrix ''m'' bool_codec bool_codec bool_codec (\<lambda>x. x) (\<lambda>x. \<not> x),
      AVector ''u'' bool_codec]"

definition still_clock :: "nat \<Rightarrow> 64 word" where
  "still_clock n = 100"

definition sound_device :: "nat \<Rightarrow> nat option" where
  "sound_device n = None"

definition full_device :: "nat \<Rightarrow> nat option" where
  "full_device n = Some 0"

definition any_file :: "string \<Rightarrow> bool" where
  "any_file name = True"

text \<open>The table of hooks that the constructors of a program leave in a new \<^verbatim>\<open>Instance\<close>.\<close>

definition table_of ::
  "('a, 'k::linorder, 't, 'r::linorder, 'c::linorder, 'm) program \<Rightarrow>
     (string \<rightharpoonup> ('a, 'k, 't, 'r, 'c, 'm) storages hook)" where
  "table_of prog =
     (case construct prog (Instance_ctor []) of
        Done i \<Rightarrow> hooks i
      | Throws e i \<Rightarrow> Map.empty
      | Abort \<Rightarrow> Map.empty)"

text \<open>
  A machine whose only file is the journal \<open>F\<close> with the content \<open>jt\<close>, before any
  process. The process of \<open>bool_program name\<close> on it: after its constructors; and after
  \<^verbatim>\<open>Run()\<close>, when the stream is in the state given, the journal reads \<open>jt\<close>, the clock
  was read \<open>n\<close> times and the device was written to \<open>k\<close> times.
\<close>

definition machine ::
  "string \<Rightarrow> (nat \<Rightarrow> nat option) \<Rightarrow> (bool, bool, bool, bool, bool, bool) storages durable" where
  "machine jt dev =
     \<lparr> inst = Instance_ctor [], disk = [''F'' \<mapsto> jt], now = still_clock, tick = 0,
       can_open = any_file, device = dev, writes = 0 \<rparr>"

definition constructed ::
  "string \<Rightarrow> string \<Rightarrow> (nat \<Rightarrow> nat option) \<Rightarrow> (bool, bool, bool, bool, bool, bool) storages durable" where
  "constructed name jt dev =
     \<lparr> inst = \<lparr> run = False, filename = ''F'', output_file = None,
                hooks = table_of (bool_program name) \<rparr>,
       disk = [''F'' \<mapsto> jt], now = still_clock, tick = 0,
       can_open = any_file, device = dev, writes = 0 \<rparr>"

definition running ::
  "string \<Rightarrow> ofstream \<Rightarrow> string \<Rightarrow> (nat \<Rightarrow> nat option) \<Rightarrow> nat \<Rightarrow> nat \<Rightarrow>
     (bool, bool, bool, bool, bool, bool) storages durable" where
  "running name stream jt dev n k =
     \<lparr> inst = \<lparr> run = True, filename = ''F'', output_file = Some stream,
                hooks = table_of (bool_program name) \<rparr>,
       disk = [''F'' \<mapsto> jt], now = still_clock, tick = n,
       can_open = any_file, device = dev, writes = k \<rparr>"

section \<open>Replay in the words of the specification\<close>


section \<open>Invariants of the proofs\<close>

text \<open>What a two-level index holds at a pair of keys.\<close>

definition index_find :: "'x \<Rightarrow> 'y \<Rightarrow> ('x, ('y, 't) std_map) std_map \<Rightarrow> 't option" where
  "index_find a b outer = (case std_map_find a outer of None \<Rightarrow> None | Some inner \<Rightarrow> std_map_find b inner)"

text \<open>What \<^verbatim>\<open>DoDelete\<close> does to one index.\<close>

definition index_drop ::
  "'x::linorder \<Rightarrow> 'y \<Rightarrow> ('x, ('y, 't) std_map) std_map \<Rightarrow> ('x, ('y, 't) std_map) std_map" where
  "index_drop a b outer = index_prune a (index_erase a b outer)"

text \<open>An index is a \<^verbatim>\<open>std::map\<close> of non-empty \<^verbatim>\<open>std::map\<close>s.\<close>

definition index_ok :: "('x::linorder, ('y::linorder, 't) std_map) std_map \<Rightarrow> bool" where
  "index_ok outer \<longleftrightarrow>
     std_map_ok outer \<and> (\<forall>a inner. std_map_find a outer = Some inner \<longrightarrow> inner \<noteq> [] \<and> std_map_ok inner)"

text \<open>The primary map and both indices hold the same cell at every (row, column).\<close>

definition matrix_ok :: "('r::linorder, 'c::linorder, 't) LightweightMatrixStorage \<Rightarrow> bool" where
  "matrix_ok st \<longleftrightarrow>
     std_map_ok (mx_map st) \<and> index_ok (mx_forward st) \<and> index_ok (mx_transposed st) \<and>
     (\<forall>r c. index_find r c (mx_forward st) = std_map_find (r, c) (mx_map st)) \<and>
     (\<forall>r c. index_find c r (mx_transposed st) = std_map_find (r, c) (mx_map st))"


section \<open>Properties of \<^verbatim>\<open>std::map\<close>\<close>

lemma find_assign:
  "std_map_find k' (std_map_assign k v m) = (if k' = k then Some v else std_map_find k' m)"
  by (induction m) (auto simp: std_map_find_def)

lemma find_erase:
  "std_map_find k' (std_map_erase k m) = (if k' = k then None else std_map_find k' m)"
  by (induction m) (auto simp: std_map_find_def std_map_erase_def)

lemma find_None_iff: "std_map_find k m = None \<longleftrightarrow> k \<notin> fst ` set m"
  by (simp add: std_map_find_def map_of_eq_None_iff)

lemma keys_assign: "fst ` set (std_map_assign k v m) = insert k (fst ` set m)"
  by (induction m) auto

lemma ok_assign: "std_map_ok m \<Longrightarrow> std_map_ok (std_map_assign k v m)"
proof (induction m)
  case Nil
  then show ?case by (simp add: std_map_ok_def)
next
  case (Cons p ps)
  then have tl: "std_map_ok (std_map_assign k v ps)" by (simp add: std_map_ok_def)
  from Cons.prems have above: "\<forall>q \<in> set ps. fst p < fst q" by (auto simp: std_map_ok_def)
  show ?case
  proof (cases "k < fst p")
    case True
    with Cons.prems above show ?thesis by (auto simp: std_map_ok_def)
  next
    case False
    show ?thesis
    proof (cases "fst p < k")
      case True
      have "\<forall>a \<in> fst ` set (std_map_assign k v ps). fst p < a"
        using above True by (simp add: keys_assign)
      with tl True \<open>\<not> k < fst p\<close> show ?thesis by (auto simp: std_map_ok_def)
    next
      case False
      with \<open>\<not> k < fst p\<close> have "k = fst p" by simp
      with Cons.prems show ?thesis by (auto simp: std_map_ok_def)
    qed
  qed
qed

lemma ok_erase: "std_map_ok m \<Longrightarrow> std_map_ok (std_map_erase k m)"
  unfolding std_map_ok_def std_map_erase_def
  by (induction m) auto




lemma length_assign:
  "std_map_ok m \<Longrightarrow> length (std_map_assign k v m) = (if std_map_find k m = None then Suc (length m) else length m)"
proof (induction m)
  case Nil
  then show ?case by (simp add: std_map_find_def)
next
  case (Cons p ps)
  from Cons.prems(1) have above: "\<forall>q \<in> set ps. fst p < fst q" and tl: "std_map_ok ps"
    by (auto simp: std_map_ok_def)
  have "k < fst p \<Longrightarrow> std_map_find k ps = None"
    using above by (force simp: find_None_iff)
  with Cons.IH tl show ?case by (cases p) (auto simp: std_map_find_def)
qed

lemma assign_not_Nil: "std_map_assign k v m \<noteq> []"
  by (cases m) auto

lemma ok_Nil: "std_map_ok []"
  by (simp add: std_map_ok_def)

lemma find_Nil: "std_map_find k [] = None"
  by (simp add: std_map_find_def)

lemma find_single: "std_map_find k' [(k, v)] = (if k' = k then Some v else None)"
  by (simp add: std_map_find_def)

lemma ok_single: "std_map_ok [(k, v)]"
  by (simp add: std_map_ok_def)

lemma find_index_store:
  "index_find a' b' (index_store a b cell outer) =
     (if a' = a \<and> b' = b then Some cell else index_find a' b' outer)"
  by (cases "std_map_find a outer")
     (auto simp: index_find_def index_store_def std_map_subscript_def find_assign find_Nil find_single)

lemma ok_index_store: "index_ok outer \<Longrightarrow> index_ok (index_store a b cell outer)"
  by (cases "std_map_find a outer")
     (auto simp: index_ok_def index_store_def std_map_subscript_def find_assign ok_assign
        assign_not_Nil ok_Nil ok_single split: if_splits)

lemma index_drop_eq:
  "index_drop a b outer =
     (let inner = (case std_map_find a outer of None \<Rightarrow> [] | Some i \<Rightarrow> i);
          outer2 = std_map_assign a (std_map_erase b inner) outer
      in if std_map_erase b inner = [] then std_map_erase a outer2 else outer2)"
proof (cases "std_map_find a outer")
  case None
  have same: "std_map_assign a [] (std_map_assign a ([]::('b \<times> 'c) list) outer) = std_map_assign a [] outer"
    by (induction outer) auto
  from None show ?thesis
    by (simp add: index_drop_def index_erase_def index_prune_def std_map_subscript_def find_assign
          Let_def std_map_erase_def same)
next
  case (Some i)
  then show ?thesis
    by (simp add: index_drop_def index_erase_def index_prune_def std_map_subscript_def find_assign
          Let_def)
qed

lemma erase_Nil_find: "std_map_erase b inner = [] \<Longrightarrow> b' \<noteq> b \<Longrightarrow> std_map_find b' inner = None"
  using find_erase [of b' b inner] by (simp add: find_Nil)

lemma find_index_drop:
  "index_find a' b' (index_drop a b outer) =
     (if a' = a \<and> b' = b then None else index_find a' b' outer)"
  by (cases "std_map_find a outer")
     (auto simp: index_find_def index_drop_eq Let_def find_assign find_erase find_Nil
        std_map_erase_def [of _ "[]"] dest: erase_Nil_find)

lemma ok_index_drop: "index_ok outer \<Longrightarrow> index_ok (index_drop a b outer)"
  by (cases "std_map_find a outer")
     (auto simp: index_ok_def index_drop_eq Let_def find_assign find_erase ok_assign ok_erase
        ok_Nil split: if_splits)


lemma matrix_ok_ctor: "matrix_ok LightweightMatrixStorage_ctor"
  by (simp add: matrix_ok_def LightweightMatrixStorage_ctor_def ok_Nil index_ok_def index_find_def find_Nil)

lemma matrix_ok_DoAdd: "matrix_ok st \<Longrightarrow> matrix_ok (DoAdd GetRow GetCol x st)"
  by (simp add: matrix_ok_def DoAdd_def Let_def ok_assign ok_index_store find_index_store find_assign)

lemma DoDelete_indices:
  "DoDelete row col st =
     \<lparr> mx_map = std_map_erase (row, col) (mx_map st),
       mx_forward = index_drop row col (mx_forward st),
       mx_transposed = index_drop col row (mx_transposed st) \<rparr>"
  by (simp add: DoDelete_def index_drop_def Let_def)

lemma matrix_ok_DoDelete: "matrix_ok st \<Longrightarrow> matrix_ok (DoDelete row col st)"
  by (simp add: matrix_ok_def DoDelete_indices ok_erase ok_index_drop find_index_drop find_erase)


lemma matrix_ok_after: "matrix_ok st \<Longrightarrow> matrix_ok (matrix_after GetRow GetCol calls st)"
  by (induction GetRow GetCol calls st rule: matrix_after.induct)
     (simp_all add: matrix_ok_DoAdd matrix_ok_DoDelete)

lemma keys_find: "k \<in> set (std_map_keys m) \<longleftrightarrow> std_map_find k m \<noteq> None"
  by (simp add: std_map_keys_def find_None_iff)

lemma ok_distinct: "std_map_ok m \<Longrightarrow> distinct (map fst m)"
  by (simp add: std_map_ok_def strict_sorted_iff)

lemma entry_find: "std_map_ok m \<Longrightarrow> (k, v) \<in> set m \<longleftrightarrow> std_map_find k m = Some v"
  by (simp add: std_map_find_def ok_distinct)

lemma outer_key_iff:
  assumes "index_ok outer"
  shows "a \<in> set (std_map_keys outer) \<longleftrightarrow> (\<exists>b. index_find a b outer \<noteq> None)"
proof
  assume "a \<in> set (std_map_keys outer)"
  then obtain inner where f: "std_map_find a outer = Some inner" by (auto simp: keys_find)
  with assms have "inner \<noteq> []" by (auto simp: index_ok_def)
  then obtain p ps where "inner = p # ps" by (cases inner) auto
  then have "std_map_find (fst p) inner \<noteq> None" by (cases p) (simp add: std_map_find_def)
  with f show "\<exists>b. index_find a b outer \<noteq> None" by (auto simp: index_find_def)
next
  assume "\<exists>b. index_find a b outer \<noteq> None"
  then show "a \<in> set (std_map_keys outer)"
    by (auto simp: index_find_def keys_find split: option.splits)
qed

lemma pairs_iff:
  assumes "std_map_ok outer"
  shows "(a, b) \<in> set (index_pairs outer) \<longleftrightarrow> index_find a b outer \<noteq> None"
proof -
  have "(a, b) \<in> set (index_pairs outer) \<longleftrightarrow> (\<exists>inner. (a, inner) \<in> set outer \<and> b \<in> fst ` set inner)"
    by (force simp: index_pairs_def)
  also have "\<dots> \<longleftrightarrow> (\<exists>inner. std_map_find a outer = Some inner \<and> std_map_find b inner \<noteq> None)"
    using assms by (simp add: entry_find find_None_iff)
  also have "\<dots> \<longleftrightarrow> index_find a b outer \<noteq> None"
    by (auto simp: index_find_def split: option.splits)
  finally show ?thesis .
qed

lemma matrix_ok_consistent:
  assumes "matrix_ok st"
  shows "consistent st"
proof -
  from assms have fw: "index_ok (mx_forward st)" and tr: "index_ok (mx_transposed st)"
    and f: "\<And>r c. index_find r c (mx_forward st) = std_map_find (r, c) (mx_map st)"
    and t: "\<And>r c. index_find c r (mx_transposed st) = std_map_find (r, c) (mx_map st)"
    by (simp_all add: matrix_ok_def)
  have rows: "set (std_map_keys (Rows st)) = fst ` set (std_map_keys (mx_map st))"
  proof (rule set_eqI)
    fix r
    have "r \<in> fst ` set (std_map_keys (mx_map st)) \<longleftrightarrow> (\<exists>c. (r, c) \<in> set (std_map_keys (mx_map st)))"
      by force
    moreover have "r \<in> set (std_map_keys (Rows st)) \<longleftrightarrow> (\<exists>c. index_find r c (mx_forward st) \<noteq> None)"
      unfolding Rows_def by (rule outer_key_iff [OF fw])
    ultimately show "r \<in> set (std_map_keys (Rows st)) \<longleftrightarrow> r \<in> fst ` set (std_map_keys (mx_map st))"
      by (simp add: f keys_find)
  qed
  have cols: "set (std_map_keys (Cols st)) = snd ` set (std_map_keys (mx_map st))"
  proof (rule set_eqI)
    fix c
    have "c \<in> snd ` set (std_map_keys (mx_map st)) \<longleftrightarrow> (\<exists>r. (r, c) \<in> set (std_map_keys (mx_map st)))"
      by force
    moreover have "c \<in> set (std_map_keys (Cols st)) \<longleftrightarrow> (\<exists>r. index_find c r (mx_transposed st) \<noteq> None)"
      unfolding Cols_def by (rule outer_key_iff [OF tr])
    ultimately show "c \<in> set (std_map_keys (Cols st)) \<longleftrightarrow> c \<in> snd ` set (std_map_keys (mx_map st))"
      by (simp add: t keys_find)
  qed
  from fw have fwo: "std_map_ok (mx_forward st)" by (simp add: index_ok_def)
  from tr have tro: "std_map_ok (mx_transposed st)" by (simp add: index_ok_def)
  have p1: "set (index_pairs (Rows st)) = set (std_map_keys (mx_map st))"
  proof (rule set_eqI)
    fix x :: "'a \<times> 'b"
    show "x \<in> set (index_pairs (Rows st)) \<longleftrightarrow> x \<in> set (std_map_keys (mx_map st))"
      by (cases x) (simp add: Rows_def pairs_iff [OF fwo] f keys_find)
  qed
  have p2: "set (map prod.swap (index_pairs (Cols st))) = set (std_map_keys (mx_map st))"
  proof (rule set_eqI)
    fix x :: "'a \<times> 'b"
    obtain r c where x: "x = (r, c)" by (cases x)
    have "x \<in> set (map prod.swap (index_pairs (Cols st))) \<longleftrightarrow> (c, r) \<in> set (index_pairs (Cols st))"
      unfolding x by force
    then show "x \<in> set (map prod.swap (index_pairs (Cols st))) \<longleftrightarrow> x \<in> set (std_map_keys (mx_map st))"
      by (simp add: x Cols_def pairs_iff [OF tro] t keys_find)
  qed
  from rows cols p1 p2 show ?thesis by (simp add: consistent_def)
qed

section \<open>Calls through a persister\<close>

lemma two_writes:
  assumes "output_file (inst env) = Some stream"
  shows "written env hook_name payload
           (stream_write (payload @ [LF])
              (stream_write (entry_head env hook_name) (env\<lparr> tick := Suc (tick env) \<rparr>)))"
proof (cases stream)
  case Good
  show ?thesis
  proof (cases "device env (writes env)")
    case None
    note first = this
    show ?thesis
    proof (cases "device env (Suc (writes env))")
      case None
      with first Good assms show ?thesis
        by (simp add: written_def stream_write_def stream_good_def journal_def read_file_def
              entry_def entry_head_def)
    next
      case (Some k)
      have "prefix (journal env @ entry_head env hook_name @ take k (payload @ [LF]))
              (journal env @ entry_head env hook_name @ payload @ [LF])"
        unfolding same_prefix_prefix by (rule take_is_prefix)
      with Some first Good assms show ?thesis
        by (simp add: written_def stream_write_def stream_good_def journal_def read_file_def
              entry_def entry_head_def del: take_append prefix_snoc)
    qed
  next
    case (Some k)
    have "prefix (take k (entry_head env hook_name)) (entry_head env hook_name @ payload @ [LF])"
      using take_is_prefix [of k "entry_head env hook_name"] by (rule prefix_prefix)
    with Some Good assms show ?thesis
      by (simp add: written_def stream_write_def stream_good_def journal_def read_file_def
            entry_def)
  qed
next
  case Failed
  with assms show ?thesis
    by (simp add: written_def stream_write_def stream_good_def journal_def)
qed

lemma Persist_unset: "output_file (inst env) = None \<Longrightarrow> Persist hook_name env = Abort"
  by (simp add: Persist_def)

lemma Persist_set:
  "output_file (inst env) = Some stream \<Longrightarrow>
     Persist hook_name env =
       Done (stream_write (entry_head env hook_name) (env\<lparr> tick := Suc (tick env) \<rparr>))"
  by (simp add: Persist_def entry_head_def)

lemma Durable_PersistPushBack_written:
  assumes "output_file (inst env) = Some stream"
  shows "\<exists>env'. Durable_PersistPushBack cd name i x env = Done env' \<and>
           written env (name @ ''.push_back'') (ToString i @ [TAB] @ JSON cd x) env'"
  using two_writes [OF assms, of "name @ ''.push_back''" "ToString i @ [TAB] @ JSON cd x"]
  by (simp add: Durable_PersistPushBack_def Persist_set [OF assms])

lemma Durable_PersistPopBack_written:
  assumes "output_file (inst env) = Some stream"
  shows "\<exists>env'. Durable_PersistPopBack name i env = Done env' \<and>
           written env (name @ ''.pop_back'') (ToString i) env'"
  using two_writes [OF assms, of "name @ ''.pop_back''" "ToString i"]
  by (simp add: Durable_PersistPopBack_def Persist_set [OF assms])

lemma Durable_PersistInsert_written:
  assumes "output_file (inst env) = Some stream"
  shows "\<exists>env'. Durable_PersistInsert cd name x env = Done env' \<and>
           written env (name @ ''.insert'') (JSON cd x) env'"
  using two_writes [OF assms, of "name @ ''.insert''" "JSON cd x"]
  by (simp add: Durable_PersistInsert_def Persist_set [OF assms])

lemma Durable_PersistErase_written:
  assumes "output_file (inst env) = Some stream"
  shows "\<exists>env'. Durable_PersistErase kcd name k env = Done env' \<and>
           written env (name @ ''.erase'') (JSON kcd k) env'"
  using two_writes [OF assms, of "name @ ''.erase''" "JSON kcd k"]
  by (simp add: Durable_PersistErase_def Persist_set [OF assms])

lemma Durable_PersistAdd_written:
  assumes "output_file (inst env) = Some stream"
  shows "\<exists>env'. Durable_PersistAdd cd name x env = Done env' \<and>
           written env (name @ ''.add'') (JSON cd x) env'"
  using two_writes [OF assms, of "name @ ''.add''" "JSON cd x"]
  by (simp add: Durable_PersistAdd_def Persist_set [OF assms])

lemma Durable_PersistDelete_written:
  assumes "output_file (inst env) = Some stream"
  shows "\<exists>env'. Durable_PersistDelete rcd ccd name row col env = Done env' \<and>
           written env (name @ ''.delete'') (JSON rcd row @ [TAB] @ JSON ccd col) env'"
  using two_writes [OF assms, of "name @ ''.delete''" "JSON rcd row @ [TAB] @ JSON ccd col"]
  by (simp add: Durable_PersistDelete_def Persist_set [OF assms])

lemma persist_first_PushBack:
  "persist_first (PersistPushBack (length vec) x p) vec (vec @ [x]) (PushBack PersistPushBack x (vec, p))"
  by (simp add: persist_first_def PushBack_def split: outcome.splits)

lemma persist_first_PopBack:
  "vec \<noteq> [] \<Longrightarrow>
     persist_first (PersistPopBack (length vec) p) vec (butlast vec) (PopBack PersistPopBack (vec, p))"
  by (simp add: persist_first_def PopBack_def split: outcome.splits)

lemma persist_first_Insert:
  "persist_first (PersistInsert x p) dict (DoInsert GetKey x dict) (Insert PersistInsert GetKey x (dict, p))"
  by (simp add: persist_first_def Insert_def split: outcome.splits)

lemma persist_first_Erase:
  "persist_first (PersistErase k p) dict (std_map_erase k dict) (Erase PersistErase k (dict, p))"
  by (simp add: persist_first_def Erase_def split: outcome.splits)

lemma persist_first_Add:
  "persist_first (PersistAdd x p) st (DoAdd GetRow GetCol x st) (Add PersistAdd GetRow GetCol x (st, p))"
  by (simp add: persist_first_def Add_def split: outcome.splits)

lemma persist_first_Delete:
  "persist_first (PersistDelete row col p) st (DoDelete row col st) (Delete PersistDelete row col (st, p))"
  by (simp add: persist_first_def Delete_def split: outcome.splits)

lemma PopBack_empty:
  "PopBack PersistPopBack ([], p) = Throws CannotPopBackFromEmptyVectorException ([], p)"
  by (simp add: PopBack_def)

lemma logged_PushBack:
  "logged_and_applied env (name @ ''.push_back'') (ToString (length vec) @ [TAB] @ JSON cd x) (vec @ [x])
     (PushBack (Durable_PersistPushBack cd name) x (vec, env))"
  using Durable_PersistPushBack_written [of env _ cd name "length vec" x]
  by (auto simp: logged_and_applied_def PushBack_def Durable_PersistPushBack_def Persist_unset
        split: option.splits)

lemma logged_PopBack:
  "vec \<noteq> [] \<Longrightarrow>
   logged_and_applied env (name @ ''.pop_back'') (ToString (length vec)) (butlast vec)
     (PopBack (Durable_PersistPopBack name) (vec, env))"
  using Durable_PersistPopBack_written [of env _ name "length vec"]
  by (auto simp: logged_and_applied_def PopBack_def Durable_PersistPopBack_def Persist_unset
        split: option.splits)

lemma logged_Insert:
  "logged_and_applied env (name @ ''.insert'') (JSON cd x) (DoInsert GetKey x dict)
     (Insert (Durable_PersistInsert cd name) GetKey x (dict, env))"
  using Durable_PersistInsert_written [of env _ cd name x]
  by (auto simp: logged_and_applied_def Insert_def Durable_PersistInsert_def Persist_unset
        split: option.splits)

lemma logged_Erase:
  "logged_and_applied env (name @ ''.erase'') (JSON kcd k) (std_map_erase k dict)
     (Erase (Durable_PersistErase kcd name) k (dict, env))"
  using Durable_PersistErase_written [of env _ kcd name k]
  by (auto simp: logged_and_applied_def Erase_def Durable_PersistErase_def Persist_unset
        split: option.splits)

lemma logged_Add:
  "logged_and_applied env (name @ ''.add'') (JSON cd x) (DoAdd GetRow GetCol x st)
     (Add (Durable_PersistAdd cd name) GetRow GetCol x (st, env))"
  using Durable_PersistAdd_written [of env _ cd name x]
  by (auto simp: logged_and_applied_def Add_def Durable_PersistAdd_def Persist_unset
        split: option.splits)

lemma logged_Delete:
  "logged_and_applied env (name @ ''.delete'') (JSON rcd row @ [TAB] @ JSON ccd col) (DoDelete row col st)
     (Delete (Durable_PersistDelete rcd ccd name) row col (st, env))"
  using Durable_PersistDelete_written [of env _ rcd ccd name row col]
  by (auto simp: logged_and_applied_def Delete_def Durable_PersistDelete_def Persist_unset
        split: option.splits)

lemma Get_DoInsert: "Dictionary_Get (DoInsert GetKey y dict) (GetKey y) = Some y"
  by (simp add: Dictionary_Get_def DoInsert_def find_assign)

lemma Get_erase: "Dictionary_Get (std_map_erase k dict) k = None"
  by (simp add: Dictionary_Get_def find_erase)

lemma Get_DoAdd: "Matrix_Get (DoAdd GetRow GetCol z st) (GetRow z) (GetCol z) = Some z"
  by (simp add: Matrix_Get_def DoAdd_def Let_def find_assign)

lemma Get_DoDelete: "Matrix_Get (DoDelete row col st) row col = None"
  by (simp add: Matrix_Get_def DoDelete_def Let_def find_erase)

lemma running_simps:
  "output_file (inst (running name stream jt dev n k)) = Some stream"
  "journal (running name stream jt dev n k) = jt"
  "stream_good (running name stream jt dev n k) \<longleftrightarrow> stream = Good"
  by (simp_all add: running_def journal_def read_file_def stream_good_def)

text \<open>
  Claim C2. \<^verbatim>\<open>PopBack\<close> on an empty vector throws \<^verbatim>\<open>CannotPopBackFromEmptyVectorException\<close>
  and leaves both the vector and the persister as they were, whatever the persister is: its
  method is not called, so nothing is added to a journal. On a non-empty vector the result
  follows the persister, which is called with the size before the removal, and on its return
  the last element is gone; through the file persister with its stream set the call returns
  so, and when the write landed (the stream is good afterwards) the journal has grown by the
  one \<^verbatim>\<open>pop_back\<close> line.
\<close>
theorem PopBack_on_empty_throws_and_persists_nothing:
  "PopBack PersistPopBack ([], p) = Throws CannotPopBackFromEmptyVectorException ([], p) \<and>
   (vec \<noteq> [] \<longrightarrow>
      persist_first (PersistPopBack (length vec) p) vec (butlast vec) (PopBack PersistPopBack (vec, p))) \<and>
   (vec \<noteq> [] \<and> output_file (inst env) \<noteq> None \<longrightarrow>
      (\<exists>env'. PopBack (Durable_PersistPopBack name) (vec, env) = Done (butlast vec, env') \<and>
         (stream_good env' \<longrightarrow>
            journal env' = journal env @ entry env (name @ ''.pop_back'') (ToString (length vec)))))"
proof (intro conjI impI)
  show "PopBack PersistPopBack ([], p) = Throws CannotPopBackFromEmptyVectorException ([], p)"
    by (rule PopBack_empty)
  show "persist_first (PersistPopBack (length vec) p) vec (butlast vec) (PopBack PersistPopBack (vec, p))"
    if "vec \<noteq> []" using that by (rule persist_first_PopBack)
  show "\<exists>env'. PopBack (Durable_PersistPopBack name) (vec, env) = Done (butlast vec, env') \<and>
         (stream_good env' \<longrightarrow>
            journal env' = journal env @ entry env (name @ ''.pop_back'') (ToString (length vec)))"
    if "vec \<noteq> [] \<and> output_file (inst env) \<noteq> None"
    using that logged_PopBack [of vec env name]
    by (auto simp: logged_and_applied_def written_def split: outcome.splits)
qed

theorem PopBack_on_empty_throws_and_persists_nothing_witness:
  "[5::nat, 6] \<noteq> [] \<and> output_file (inst (running ''v'' Good [] sound_device 0 0)) \<noteq> None \<and>
   PopBack InMemory_PersistPopBack ([5::nat, 6], ()) = Done ([5], ()) \<and>
   PopBack (Durable_PersistPopBack ''v'') ([5::nat, 6], running ''v'' Good [] sound_device 0 0) =
     Done ([5], running ''v'' Good (''100'' @ [TAB] @ ''v.pop_back'' @ [TAB] @ ''2'' @ [LF]) sound_device 1 2) \<and>
   (\<exists>env'. PopBack (Durable_PersistPopBack ''v'') ([5::nat, 6], running ''v'' Good [] sound_device 0 0) = Done ([5], env') \<and>
           (stream_good env' \<longrightarrow>
              journal env' = ''100'' @ [TAB] @ ''v.pop_back'' @ [TAB] @ ''2'' @ [LF]))"
proof -
  have evaluated: "PopBack (Durable_PersistPopBack ''v'') ([5::nat, 6], running ''v'' Good [] sound_device 0 0) =
     Done ([5], running ''v'' Good (''100'' @ [TAB] @ ''v.pop_back'' @ [TAB] @ ''2'' @ [LF]) sound_device 1 2)"
    by (simp add: PopBack_def Durable_PersistPopBack_def Persist_def stream_write_def running_def
          read_file_def sound_device_def still_clock_def ToString.simps digit_char_def)
  from PopBack_on_empty_throws_and_persists_nothing
    [where vec = "[5::nat, 6]" and PersistPopBack = InMemory_PersistPopBack and p = "()"
       and name = "''v''" and env = "running ''v'' Good [] sound_device 0 0"]
    evaluated
  show ?thesis
    by (auto simp: persist_first_def InMemory_PersistPopBack_def entry_def entry_head_def
          running_def journal_def read_file_def stream_good_def still_clock_def ToString.simps
          digit_char_def)
qed

text \<open>
  Claim C3, as stated, fails in its last part: the code never looks at the state of the
  output stream. On a device that refuses every write, \<^verbatim>\<open>PushBack(true)\<close> through the file
  persister returns with the element in the vector, the stream has failed, and the journal
  has no line.
\<close>
theorem mutation_without_journal_entry:
  "PushBack (Durable_PersistPushBack bool_codec ''v'') True ([], running ''v'' Good [] full_device 0 0) =
     Done ([True], running ''v'' Failed [] full_device 1 1) \<and>
   journal (running ''v'' Failed [] full_device 1 1) = []"
  by (simp add: PushBack_def Durable_PersistPushBack_def Persist_def stream_write_def running_def
        full_device_def journal_def read_file_def)

text \<open>
  Claim C3, amended. Each of the six mutating calls asks its persister first and follows its
  result: when the persister throws, the call throws the same exception with the storage
  untouched; when it returns, the storage is the mutated one, which holds the record
  inserted or added under its key and nothing under a key erased or deleted. (\<^verbatim>\<open>PopBack\<close> is
  taken on a non-empty vector.) Through the file persister, a call with the output stream
  set returns with the mutated storage whether or not its write landed: when the stream is
  good afterwards the journal has grown by exactly the line of the call, and when it has
  failed the journal has grown by at most a part of that line. With the stream not set,
  the call stops at the assertion before anything is written or mutated.
\<close>
theorem persist_precedes_mutation:
  "persist_first (PersistPushBack (length vec) x p) vec (vec @ [x]) (PushBack PersistPushBack x (vec, p)) \<and>
   (vec \<noteq> [] \<longrightarrow>
      persist_first (PersistPopBack (length vec) p) vec (butlast vec) (PopBack PersistPopBack (vec, p))) \<and>
   persist_first (PersistInsert y p) dict (DoInsert GetKey y dict) (Insert PersistInsert GetKey y (dict, p)) \<and>
   persist_first (PersistErase k p) dict (std_map_erase k dict) (Erase PersistErase k (dict, p)) \<and>
   persist_first (PersistAdd z p) st (DoAdd GetRow GetCol z st) (Add PersistAdd GetRow GetCol z (st, p)) \<and>
   persist_first (PersistDelete row col p) st (DoDelete row col st) (Delete PersistDelete row col (st, p)) \<and>
   Dictionary_Get (DoInsert GetKey y dict) (GetKey y) = Some y \<and>
   Dictionary_Get (std_map_erase k dict) k = None \<and>
   Matrix_Get (DoAdd GetRow GetCol z st) (GetRow z) (GetCol z) = Some z \<and>
   Matrix_Get (DoDelete row col st) row col = None \<and>
   logged_and_applied env (vname @ ''.push_back'') (ToString (length vec) @ [TAB] @ JSON vcd x) (vec @ [x])
     (PushBack (Durable_PersistPushBack vcd vname) x (vec, env)) \<and>
   (vec \<noteq> [] \<longrightarrow>
      logged_and_applied env (vname @ ''.pop_back'') (ToString (length vec)) (butlast vec)
        (PopBack (Durable_PersistPopBack vname) (vec, env))) \<and>
   logged_and_applied env (dname @ ''.insert'') (JSON dcd y) (DoInsert GetKey y dict)
     (Insert (Durable_PersistInsert dcd dname) GetKey y (dict, env)) \<and>
   logged_and_applied env (dname @ ''.erase'') (JSON kcd k) (std_map_erase k dict)
     (Erase (Durable_PersistErase kcd dname) k (dict, env)) \<and>
   logged_and_applied env (mname @ ''.add'') (JSON mcd z) (DoAdd GetRow GetCol z st)
     (Add (Durable_PersistAdd mcd mname) GetRow GetCol z (st, env)) \<and>
   logged_and_applied env (mname @ ''.delete'') (JSON rcd row @ [TAB] @ JSON ccd col) (DoDelete row col st)
     (Delete (Durable_PersistDelete rcd ccd mname) row col (st, env))"
  by (intro conjI impI persist_first_PushBack persist_first_PopBack persist_first_Insert
        persist_first_Erase persist_first_Add persist_first_Delete logged_PushBack logged_PopBack
        logged_Insert logged_Erase logged_Add logged_Delete Get_DoInsert Get_erase Get_DoAdd
        Get_DoDelete)

theorem persist_precedes_mutation_witness:
  "[5::nat, 6] \<noteq> [] \<and>
   PopBack (\<lambda>i p. Throws PersisterException p) ([5::nat, 6], ()) = Throws PersisterException ([5, 6], ()) \<and>
   PopBack (Durable_PersistPopBack ''v'') ([5::nat, 6], machine [] sound_device) = Abort \<and>
   (\<exists>env'. PushBack (Durable_PersistPushBack bool_codec ''v'') True
              ([], running ''v'' Good [] sound_device 0 0) = Done ([True], env') \<and>
           written (running ''v'' Good [] sound_device 0 0) ''v.push_back''
             (''0'' @ [TAB] @ ''true'') env')"
  using persist_precedes_mutation
      [where vec = "[5::nat, 6]" and PersistPopBack = "\<lambda>i p. Throws PersisterException p" and p = "()",
       THEN conjunct2, THEN conjunct1]
    persist_precedes_mutation
      [where vec = "[5::nat, 6]" and vname = "''v''" and env = "machine [] sound_device",
       THEN conjunct2, THEN conjunct2, THEN conjunct2, THEN conjunct2, THEN conjunct2, THEN conjunct2,
       THEN conjunct2, THEN conjunct2, THEN conjunct2, THEN conjunct2, THEN conjunct2, THEN conjunct1]
    persist_precedes_mutation
      [where vec = "[]" and x = True and vcd = bool_codec and vname = "''v''"
         and env = "running ''v'' Good [] sound_device 0 0",
       THEN conjunct2, THEN conjunct2, THEN conjunct2, THEN conjunct2, THEN conjunct2, THEN conjunct2,
       THEN conjunct2, THEN conjunct2, THEN conjunct2, THEN conjunct2, THEN conjunct1]
  by (auto simp: persist_first_def logged_and_applied_def machine_def Instance_ctor_def
        running_simps bool_codec_def ToString.simps digit_char_def split: outcome.splits)



lemma once_in_distinct: "distinct xs \<Longrightarrow> x \<in> set xs \<Longrightarrow> length (filter (\<lambda>a. a = x) xs) = 1"
proof (induction xs)
  case Nil
  then show ?case by simp
next
  case (Cons y ys)
  show ?case
  proof (cases "y = x")
    case True
    with Cons.prems have "filter (\<lambda>a. a = x) ys = []" by (auto simp: filter_empty_conv)
    with True show ?thesis by simp
  next
    case False
    with Cons show ?thesis by simp
  qed
qed

text \<open>
  Claim C4. In an ordered dictionary, \<^verbatim>\<open>Insert(v1)\<close> and then \<^verbatim>\<open>Insert(v2)\<close> of two records
  with the same key \<open>k\<close> leave \<open>v2\<close> under \<open>k\<close> and every other key as it was; the keys of
  the map stay strictly ascending, so distinct, the map holds exactly one entry for \<open>k\<close>,
  and the second insert does not change the size, which counts \<open>k\<close> once.
\<close>
theorem Insert_same_key_last_write_wins:
  assumes "std_map_ok dict"
    and "GetKey v1 = k" and "GetKey v2 = k"
    and "Insert PersistInsert GetKey v1 (dict, p) = Done (dict1, p1)"
    and "Insert PersistInsert GetKey v2 (dict1, p1) = Done (dict2, p2)"
  shows "Dictionary_Get dict2 k = Some v2 \<and>
         (\<forall>k'. k' \<noteq> k \<longrightarrow> Dictionary_Get dict2 k' = Dictionary_Get dict k') \<and>
         std_map_ok dict2 \<and> distinct (std_map_keys dict2) \<and>
         length (filter (\<lambda>e. fst e = k) dict2) = 1 \<and>
         Dictionary_Size dict2 = Dictionary_Size dict1 \<and>
         Dictionary_Size dict2 =
           (if Dictionary_Get dict k = None then Suc (Dictionary_Size dict) else Dictionary_Size dict)"
proof -
  from assms(4) have d1: "dict1 = std_map_assign k v1 dict"
    by (auto simp: Insert_def DoInsert_def assms(2) split: outcome.splits)
  from assms(5) have d2: "dict2 = std_map_assign k v2 dict1"
    by (auto simp: Insert_def DoInsert_def assms(3) split: outcome.splits)
  have ok1: "std_map_ok dict1" unfolding d1 using assms(1) by (rule ok_assign)
  have ok2: "std_map_ok dict2" unfolding d2 using ok1 by (rule ok_assign)
  have get: "Dictionary_Get dict2 k = Some v2"
    by (simp add: Dictionary_Get_def d2 find_assign)
  have others: "\<forall>k'. k' \<noteq> k \<longrightarrow> Dictionary_Get dict2 k' = Dictionary_Get dict k'"
    by (simp add: Dictionary_Get_def d1 d2 find_assign)
  have dist: "distinct (std_map_keys dict2)"
    unfolding std_map_keys_def using ok2 by (rule ok_distinct)
  have "k \<in> set (std_map_keys dict2)"
    using get by (simp add: keys_find Dictionary_Get_def)
  then have "length (filter (\<lambda>a. a = k) (std_map_keys dict2)) = 1"
    using dist by (simp add: once_in_distinct)
  then have once: "length (filter (\<lambda>e. fst e = k) dict2) = 1"
    by (simp add: std_map_keys_def filter_map comp_def)
  have size21: "Dictionary_Size dict2 = Dictionary_Size dict1"
    using length_assign [OF ok1, of k v2] by (simp add: Dictionary_Size_def d2 d1 find_assign)
  have size1: "Dictionary_Size dict1 =
      (if Dictionary_Get dict k = None then Suc (Dictionary_Size dict) else Dictionary_Size dict)"
    by (simp add: Dictionary_Size_def Dictionary_Get_def d1 length_assign [OF assms(1)])
  from get others ok2 dist once size21 size1 show ?thesis by simp
qed

theorem Insert_same_key_last_write_wins_witness:
  "std_map_ok [(1::nat, 12::nat)] \<and>
   Insert InMemory_PersistInsert (\<lambda>x. x div 10) 31 ([(1::nat, 12::nat)], ()) = Done ([(1, 12), (3, 31)], ()) \<and>
   Insert InMemory_PersistInsert (\<lambda>x. x div 10) 35 ([(1::nat, 12::nat), (3, 31)], ()) = Done ([(1, 12), (3, 35)], ()) \<and>
   Dictionary_Get [(1::nat, 12::nat), (3, 35)] 3 = Some 35 \<and>
   length (filter (\<lambda>e. fst e = 3) [(1::nat, 12::nat), (3, 35)]) = 1 \<and>
   Dictionary_Size [(1::nat, 12::nat), (3, 35)] = Suc (Dictionary_Size [(1::nat, 12::nat)])"
proof -
  have h1: "std_map_ok [(1::nat, 12::nat)]" by (simp add: std_map_ok_def)
  have h2: "(\<lambda>x::nat. x div 10) 31 = 3" and h3: "(\<lambda>x::nat. x div 10) 35 = 3" by simp_all
  have h4: "Insert InMemory_PersistInsert (\<lambda>x. x div 10) 31 ([(1::nat, 12::nat)], ()) = Done ([(1, 12), (3, 31)], ())"
    by (simp add: Insert_def InMemory_PersistInsert_def DoInsert_def)
  have h5: "Insert InMemory_PersistInsert (\<lambda>x. x div 10) 35 ([(1::nat, 12::nat), (3, 31)], ()) = Done ([(1, 12), (3, 35)], ())"
    by (simp add: Insert_def InMemory_PersistInsert_def DoInsert_def)
  have get0: "Dictionary_Get [(1::nat, 12::nat)] 3 = None"
    by (simp add: Dictionary_Get_def std_map_find_def)
  from Insert_same_key_last_write_wins [OF h1 h2 h3 h4 h5] h1 h4 h5 get0 show ?thesis by simp
qed

section \<open>The matrix and its two indices\<close>

lemma Matrix_Has_DoAdd:
  "Matrix_Has (DoAdd GetRow GetCol x st) r c \<longleftrightarrow> (r = GetRow x \<and> c = GetCol x) \<or> Matrix_Has st r c"
  by (auto simp: Matrix_Has_def DoAdd_def Let_def find_assign)

lemma Matrix_Has_DoDelete:
  "Matrix_Has (DoDelete row col st) r c \<longleftrightarrow> \<not> (r = row \<and> c = col) \<and> Matrix_Has st r c"
  by (auto simp: Matrix_Has_def DoDelete_indices find_erase)

lemma Rows_Has_iff:
  assumes "matrix_ok st"
  shows "Outer_Has (Rows st) r \<longleftrightarrow> (\<exists>c. Matrix_Has st r c)"
proof -
  from assms have fw: "index_ok (mx_forward st)"
    and f: "\<And>r c. index_find r c (mx_forward st) = std_map_find (r, c) (mx_map st)"
    by (simp_all add: matrix_ok_def)
  have "Outer_Has (Rows st) r \<longleftrightarrow> r \<in> set (std_map_keys (mx_forward st))"
    by (simp add: Outer_Has_def Rows_def keys_find)
  also have "\<dots> \<longleftrightarrow> (\<exists>c. index_find r c (mx_forward st) \<noteq> None)"
    by (rule outer_key_iff [OF fw])
  finally show ?thesis by (simp add: f Matrix_Has_def)
qed

lemma Cols_Has_iff:
  assumes "matrix_ok st"
  shows "Outer_Has (Cols st) c \<longleftrightarrow> (\<exists>r. Matrix_Has st r c)"
proof -
  from assms have tr: "index_ok (mx_transposed st)"
    and t: "\<And>r c. index_find c r (mx_transposed st) = std_map_find (r, c) (mx_map st)"
    by (simp_all add: matrix_ok_def)
  have "Outer_Has (Cols st) c \<longleftrightarrow> c \<in> set (std_map_keys (mx_transposed st))"
    by (simp add: Outer_Has_def Cols_def keys_find)
  also have "\<dots> \<longleftrightarrow> (\<exists>r. index_find c r (mx_transposed st) \<noteq> None)"
    by (rule outer_key_iff [OF tr])
  finally show ?thesis by (simp add: t Matrix_Has_def)
qed

lemma Rows_At_columns:
  assumes "matrix_ok st" and "Outer_At (Rows st) r = Some inner"
  shows "set (std_map_keys inner) = {c. Matrix_Has st r c}"
proof -
  from assms(1) have f: "\<And>c. index_find r c (mx_forward st) = std_map_find (r, c) (mx_map st)"
    by (simp add: matrix_ok_def)
  from assms(2) have "\<And>c. index_find r c (mx_forward st) = std_map_find c inner"
    by (simp add: Outer_At_def Rows_def index_find_def)
  with f show ?thesis by (auto simp: keys_find Matrix_Has_def)
qed

lemma Rows_keys_once:
  assumes "matrix_ok st" and "Outer_Has (Rows st) r"
  shows "length (filter (\<lambda>a. a = r) (std_map_keys (Rows st))) = 1"
proof -
  from assms(1) have "std_map_ok (mx_forward st)" by (simp add: matrix_ok_def index_ok_def)
  then have "distinct (std_map_keys (Rows st))"
    by (simp add: std_map_keys_def Rows_def ok_distinct)
  moreover from assms(2) have "r \<in> set (std_map_keys (Rows st))"
    by (simp add: Outer_Has_def keys_find)
  ultimately show ?thesis by (rule once_in_distinct)
qed

lemma matrix_ok_reached:
  "matrix_ok (matrix_after GetRow GetCol calls LightweightMatrixStorage_ctor)"
  by (rule matrix_ok_after [OF matrix_ok_ctor])

lemma Matrix_Has_ctor: "\<not> Matrix_Has LightweightMatrixStorage_ctor r c"
  by (simp add: Matrix_Has_def LightweightMatrixStorage_ctor_def find_Nil)

text \<open>
  Claim C6. After any sequence of \<^verbatim>\<open>Add\<close> and \<^verbatim>\<open>Delete\<close> on a new matrix the three maps
  agree: a row is in \<^verbatim>\<open>Rows()\<close> exactly when a cell has that row, a column is in
  \<^verbatim>\<open>Cols()\<close> exactly when a cell has that column, and each view reaches exactly the
  (row, column) pairs of the primary map. In particular, after \<^verbatim>\<open>Add(x)\<close> and \<^verbatim>\<open>Delete\<close> of
  the row and column of \<open>x\<close>, the row is in \<^verbatim>\<open>Rows()\<close> exactly when it has a cell in another
  column (and likewise the column in \<^verbatim>\<open>Cols()\<close>), so neither is there when the matrix was
  empty; and after two \<^verbatim>\<open>Add\<close>s in one row and two different columns, \<^verbatim>\<open>Rows()\<close> has one
  entry for the row, whose columns are these two and those the row had before, so exactly
  these two when the matrix was empty.
\<close>
theorem matrix_indices_follow_cells:
  assumes "st = matrix_after GetRow GetCol calls LightweightMatrixStorage_ctor"
  shows "consistent st \<and>
    (Outer_Has (Rows (DoDelete (GetRow x) (GetCol x) (DoAdd GetRow GetCol x st))) (GetRow x)
       \<longleftrightarrow> (\<exists>c. c \<noteq> GetCol x \<and> Matrix_Has st (GetRow x) c)) \<and>
    (Outer_Has (Cols (DoDelete (GetRow x) (GetCol x) (DoAdd GetRow GetCol x st))) (GetCol x)
       \<longleftrightarrow> (\<exists>r. r \<noteq> GetRow x \<and> Matrix_Has st r (GetCol x))) \<and>
    (calls = [] \<longrightarrow>
       \<not> Outer_Has (Rows (DoDelete (GetRow x) (GetCol x) (DoAdd GetRow GetCol x st))) (GetRow x) \<and>
       \<not> Outer_Has (Cols (DoDelete (GetRow x) (GetCol x) (DoAdd GetRow GetCol x st))) (GetCol x)) \<and>
    (GetRow x1 = GetRow x2 \<and> GetCol x1 \<noteq> GetCol x2 \<longrightarrow>
       length (filter (\<lambda>r. r = GetRow x1)
                 (std_map_keys (Rows (DoAdd GetRow GetCol x2 (DoAdd GetRow GetCol x1 st))))) = 1 \<and>
       (\<exists>inner. Outer_At (Rows (DoAdd GetRow GetCol x2 (DoAdd GetRow GetCol x1 st))) (GetRow x1) = Some inner \<and>
          set (std_map_keys inner) = {GetCol x1, GetCol x2} \<union> {c. Matrix_Has st (GetRow x1) c})) \<and>
    (calls = [] \<and> GetRow x1 = GetRow x2 \<and> GetCol x1 \<noteq> GetCol x2 \<longrightarrow>
       (\<exists>inner. Outer_At (Rows (DoAdd GetRow GetCol x2 (DoAdd GetRow GetCol x1 st))) (GetRow x1) = Some inner \<and>
          set (std_map_keys inner) = {GetCol x1, GetCol x2}))"
proof -
  have ok: "matrix_ok st" unfolding assms by (rule matrix_ok_reached)
  let ?gone = "DoDelete (GetRow x) (GetCol x) (DoAdd GetRow GetCol x st)"
  have ok_gone: "matrix_ok ?gone" by (intro matrix_ok_DoDelete matrix_ok_DoAdd ok)
  have c1: "consistent st" using ok by (rule matrix_ok_consistent)
  have c2: "Outer_Has (Rows ?gone) (GetRow x) \<longleftrightarrow> (\<exists>c. c \<noteq> GetCol x \<and> Matrix_Has st (GetRow x) c)"
    by (auto simp: Rows_Has_iff [OF ok_gone] Matrix_Has_DoDelete Matrix_Has_DoAdd)
  have c3: "Outer_Has (Cols ?gone) (GetCol x) \<longleftrightarrow> (\<exists>r. r \<noteq> GetRow x \<and> Matrix_Has st r (GetCol x))"
    by (auto simp: Cols_Has_iff [OF ok_gone] Matrix_Has_DoDelete Matrix_Has_DoAdd)
  have c4: "\<not> Outer_Has (Rows ?gone) (GetRow x) \<and> \<not> Outer_Has (Cols ?gone) (GetCol x)" if "calls = []"
  proof -
    from that assms have "st = LightweightMatrixStorage_ctor" by simp
    then have "\<And>r c. \<not> Matrix_Has st r c" by (simp add: Matrix_Has_ctor)
    then show ?thesis unfolding c2 c3 by simp
  qed
  have c5: "length (filter (\<lambda>r. r = GetRow x1)
                 (std_map_keys (Rows (DoAdd GetRow GetCol x2 (DoAdd GetRow GetCol x1 st))))) = 1 \<and>
       (\<exists>inner. Outer_At (Rows (DoAdd GetRow GetCol x2 (DoAdd GetRow GetCol x1 st))) (GetRow x1) = Some inner \<and>
          set (std_map_keys inner) = {GetCol x1, GetCol x2} \<union> {c. Matrix_Has st (GetRow x1) c})"
    if same: "GetRow x1 = GetRow x2 \<and> GetCol x1 \<noteq> GetCol x2"
  proof -
    let ?two = "DoAdd GetRow GetCol x2 (DoAdd GetRow GetCol x1 st)"
    have ok_two: "matrix_ok ?two" by (intro matrix_ok_DoAdd ok)
    have has: "Outer_Has (Rows ?two) (GetRow x1)"
      by (auto simp: Rows_Has_iff [OF ok_two] Matrix_Has_DoAdd)
    then obtain inner where inner: "Outer_At (Rows ?two) (GetRow x1) = Some inner"
      by (auto simp: Outer_Has_def Outer_At_def)
    have "set (std_map_keys inner) = {c. Matrix_Has ?two (GetRow x1) c}"
      using ok_two inner by (rule Rows_At_columns)
    also have "\<dots> = {GetCol x1, GetCol x2} \<union> {c. Matrix_Has st (GetRow x1) c}"
      using same by (auto simp: Matrix_Has_DoAdd)
    finally have "set (std_map_keys inner) = {GetCol x1, GetCol x2} \<union> {c. Matrix_Has st (GetRow x1) c}" .
    with inner Rows_keys_once [OF ok_two has] show ?thesis by simp
  qed
  have c6: "\<exists>inner. Outer_At (Rows (DoAdd GetRow GetCol x2 (DoAdd GetRow GetCol x1 st))) (GetRow x1) = Some inner \<and>
          set (std_map_keys inner) = {GetCol x1, GetCol x2}"
    if new: "calls = [] \<and> GetRow x1 = GetRow x2 \<and> GetCol x1 \<noteq> GetCol x2"
  proof -
    from new assms have "st = LightweightMatrixStorage_ctor" by simp
    then have none: "{c. Matrix_Has st (GetRow x1) c} = {}" by (simp add: Matrix_Has_ctor)
    from new have "GetRow x1 = GetRow x2 \<and> GetCol x1 \<noteq> GetCol x2" by simp
    from c5 [OF this] obtain inner where
      "Outer_At (Rows (DoAdd GetRow GetCol x2 (DoAdd GetRow GetCol x1 st))) (GetRow x1) = Some inner"
      "set (std_map_keys inner) = {GetCol x1, GetCol x2} \<union> {c. Matrix_Has st (GetRow x1) c}"
      by blast
    then show ?thesis unfolding none by blast
  qed
  from c1 c2 c3 c4 c5 c6 show ?thesis by blast
qed

theorem matrix_indices_follow_cells_witness:
  "consistent (matrix_after (\<lambda>x. x div 100) (\<lambda>x. x div 10 mod 10)
                 [MatrixAdd (123::nat), MatrixAdd 134, MatrixDelete 1 2, MatrixAdd 251] LightweightMatrixStorage_ctor) \<and>
   \<not> Outer_Has (Rows (DoDelete (1::nat) (2::nat) (DoAdd (\<lambda>x. x div 100) (\<lambda>x. x div 10 mod 10) (123::nat)
                       LightweightMatrixStorage_ctor))) 1 \<and>
   (\<exists>inner. Outer_At (Rows (DoAdd (\<lambda>x. x div 100) (\<lambda>x. x div 10 mod 10) (134::nat)
                              (DoAdd (\<lambda>x. x div 100) (\<lambda>x. x div 10 mod 10) 123 LightweightMatrixStorage_ctor))) (1::nat)
               = Some inner \<and> set (std_map_keys inner) = {2::nat, 3})"
proof -
  have e: "LightweightMatrixStorage_ctor =
      matrix_after (\<lambda>x::nat. x div 100) (\<lambda>x::nat. x div 10 mod 10) [] LightweightMatrixStorage_ctor"
    by simp
  note t = matrix_indices_follow_cells
     [where GetRow = "\<lambda>x::nat. x div 100" and GetCol = "\<lambda>x::nat. x div 10 mod 10" and calls = "[]"
        and st = LightweightMatrixStorage_ctor and x = 123 and ?x1.0 = 123 and ?x2.0 = 134, OF e]
  have a: "consistent (matrix_after (\<lambda>x. x div 100) (\<lambda>x. x div 10 mod 10)
                 [MatrixAdd (123::nat), MatrixAdd 134, MatrixDelete 1 2, MatrixAdd 251] LightweightMatrixStorage_ctor)"
    by (rule matrix_indices_follow_cells [OF refl, THEN conjunct1])
  have b: "\<not> Outer_Has (Rows (DoDelete (1::nat) (2::nat) (DoAdd (\<lambda>x. x div 100) (\<lambda>x. x div 10 mod 10) (123::nat)
                       LightweightMatrixStorage_ctor))) 1"
    using t [THEN conjunct2, THEN conjunct2, THEN conjunct2, THEN conjunct1] by simp
  have c: "\<exists>inner. Outer_At (Rows (DoAdd (\<lambda>x. x div 100) (\<lambda>x. x div 10 mod 10) (134::nat)
                              (DoAdd (\<lambda>x. x div 100) (\<lambda>x. x div 10 mod 10) 123 LightweightMatrixStorage_ctor))) (1::nat)
               = Some inner \<and> set (std_map_keys inner) = {2::nat, 3}"
    using t [THEN conjunct2, THEN conjunct2, THEN conjunct2, THEN conjunct2, THEN conjunct2]
    by simp
  from a b c show ?thesis by (intro conjI)
qed



section \<open>Properties of the journal text\<close>





lemma ToString_not_Nil: "ToString n \<noteq> []"
  by (subst ToString.simps) simp


















section \<open>The life of an \<^verbatim>\<open>Instance\<close>\<close>









lemma table_of_bool_program:
  "table_of (bool_program name) =
     (if name = ''u'' then Map.empty
      else [name @ ''.push_back'' \<mapsto> Some (push_back_hook bool_codec (vector_of name) (put_vector name)),
            name @ ''.pop_back'' \<mapsto> Some (pop_back_hook (vector_of name) (put_vector name)),
            ''d.insert'' \<mapsto> Some (insert_hook bool_codec (\<lambda>x. x) (dictionary_of ''d'') (put_dictionary ''d'')),
            ''d.erase'' \<mapsto> Some (erase_hook bool_codec (dictionary_of ''d'') (put_dictionary ''d'')),
            ''m.add'' \<mapsto> Some (add_hook bool_codec (\<lambda>x. x) (\<lambda>x. \<not> x) (matrix_of ''m'') (put_matrix ''m'')),
            ''m.delete'' \<mapsto> Some (delete_hook bool_codec bool_codec (matrix_of ''m'') (put_matrix ''m'')),
            ''u.push_back'' \<mapsto> Some (push_back_hook bool_codec (vector_of ''u'') (put_vector ''u'')),
            ''u.pop_back'' \<mapsto> Some (pop_back_hook (vector_of ''u'') (put_vector ''u''))])"
  by (simp add: table_of_def bool_program_def VectorPersister_def OrderedDictionaryPersister_def
        LightweightMatrixPersister_def RegisterHook_def Instance_ctor_def)



lemma RegisterHook_Done:
  "RegisterHook hook_name hook i = Done i' \<Longrightarrow>
     (\<exists>f. hooks i' hook_name = Some (Some f)) \<and>
     (\<forall>n f. hooks i n = Some (Some f) \<longrightarrow> hooks i' n = Some (Some f))"
  by (auto simp: RegisterHook_def Let_def split: option.splits)

lemma RegisterHook_taken:
  "hooks i hook_name = Some (Some f) \<Longrightarrow> RegisterHook hook_name hook i = Abort"
  by (simp add: RegisterHook_def split: option.splits)

lemma first_hook_kept:
  assumes "RegisterHook a h1 i = Done i1" and "RegisterHook b h2 i1 = Done i2"
  shows "\<exists>f. hooks i2 a = Some (Some f)"
  using RegisterHook_Done [OF assms(1)] RegisterHook_Done [OF assms(2)] by blast

lemma VectorPersister_again:
  assumes "VectorPersister cd name get put i = Done i'"
  shows "VectorPersister cd' name get' put' i' = Abort"
proof -
  from assms obtain i1 where
    "RegisterHook (name @ ''.push_back'') (Some (push_back_hook cd get put)) i = Done i1"
    "RegisterHook (name @ ''.pop_back'') (Some (pop_back_hook get put)) i1 = Done i'"
    by (auto simp: VectorPersister_def split: outcome.splits)
  then obtain f where "hooks i' (name @ ''.push_back'') = Some (Some f)"
    using first_hook_kept by blast
  then show ?thesis by (simp add: VectorPersister_def RegisterHook_taken)
qed

lemma OrderedDictionaryPersister_again:
  assumes "OrderedDictionaryPersister cd kcd GetKey name get put i = Done i'"
  shows "OrderedDictionaryPersister cd' kcd' GetKey' name get' put' i' = Abort"
proof -
  from assms obtain i1 where
    "RegisterHook (name @ ''.insert'') (Some (insert_hook cd GetKey get put)) i = Done i1"
    "RegisterHook (name @ ''.erase'') (Some (erase_hook kcd get put)) i1 = Done i'"
    by (auto simp: OrderedDictionaryPersister_def split: outcome.splits)
  then obtain f where "hooks i' (name @ ''.insert'') = Some (Some f)"
    using first_hook_kept by blast
  then show ?thesis by (simp add: OrderedDictionaryPersister_def RegisterHook_taken)
qed

lemma LightweightMatrixPersister_again:
  assumes "LightweightMatrixPersister cd rcd ccd GetRow GetCol name get put i = Done i'"
  shows "LightweightMatrixPersister cd' rcd' ccd' GetRow' GetCol' name get' put' i' = Abort"
proof -
  from assms obtain i1 where
    "RegisterHook (name @ ''.add'') (Some (add_hook cd GetRow GetCol get put)) i = Done i1"
    "RegisterHook (name @ ''.delete'') (Some (delete_hook rcd ccd get put)) i1 = Done i'"
    by (auto simp: LightweightMatrixPersister_def split: outcome.splits)
  then obtain f where "hooks i' (name @ ''.add'') = Some (Some f)"
    using first_hook_kept by blast
  then show ?thesis by (simp add: LightweightMatrixPersister_def RegisterHook_taken)
qed

text \<open>
  Claim C8. Once a hook is registered under a name, \<^verbatim>\<open>RegisterHook\<close> with that name fails its
  assertion, whatever the second hook is; the first is neither replaced nor joined. So the
  constructor of a second container of the same kind and name on the same \<^verbatim>\<open>Instance\<close>
  fails at its first registration.
\<close>
theorem RegisterHook_same_name_aborts:
  "(RegisterHook hook_name hook i = Done i' \<longrightarrow> (\<forall>hook'. RegisterHook hook_name hook' i' = Abort)) \<and>
   (VectorPersister vcd name vget vput i = Done i' \<longrightarrow>
      VectorPersister vcd' name vget' vput' i' = Abort) \<and>
   (OrderedDictionaryPersister dcd kcd GetKey name dget dput i = Done i' \<longrightarrow>
      OrderedDictionaryPersister dcd' kcd' GetKey' name dget' dput' i' = Abort) \<and>
   (LightweightMatrixPersister mcd rcd ccd GetRow GetCol name mget mput i = Done i' \<longrightarrow>
      LightweightMatrixPersister mcd' rcd' ccd' GetRow' GetCol' name mget' mput' i' = Abort)"
proof (intro conjI impI allI)
  fix hook'
  assume "RegisterHook hook_name hook i = Done i'"
  then obtain f where "hooks i' hook_name = Some (Some f)"
    using RegisterHook_Done by blast
  then show "RegisterHook hook_name hook' i' = Abort" by (rule RegisterHook_taken)
qed (rule VectorPersister_again OrderedDictionaryPersister_again LightweightMatrixPersister_again; assumption)+

theorem RegisterHook_same_name_aborts_witness:
  "RegisterHook ''v.push_back'' (Some (\<lambda>data w. Done w)) (Instance_ctor ''F'' :: unit Instance) =
     Done \<lparr> run = False, filename = ''F'', output_file = None,
            hooks = [''v.push_back'' \<mapsto> Some (\<lambda>data w. Done w)] \<rparr> \<and>
   RegisterHook ''v.push_back'' (Some (\<lambda>data w. Abort))
     (\<lparr> run = False, filename = ''F'', output_file = None,
        hooks = [''v.push_back'' \<mapsto> Some (\<lambda>data w. Done w)] \<rparr> :: unit Instance) = Abort \<and>
   VectorPersister \<lparr> JSON = ToString, ParseJSON = (\<lambda>s. Some (FromString_size_t s)) \<rparr> ''v''
       (\<lambda>w. w) (\<lambda>v w. v) (Instance_ctor ''F'') =
     Done \<lparr> run = False, filename = ''F'', output_file = None,
            hooks = [''v.push_back'' \<mapsto>
                       Some (push_back_hook \<lparr> JSON = ToString, ParseJSON = (\<lambda>s. Some (FromString_size_t s)) \<rparr>
                               (\<lambda>w. w) (\<lambda>v w. v)),
                     ''v.pop_back'' \<mapsto> Some (pop_back_hook (\<lambda>w. w) (\<lambda>v w. v))] \<rparr> \<and>
   VectorPersister \<lparr> JSON = ToString, ParseJSON = (\<lambda>s. Some (FromString_size_t s)) \<rparr> ''v''
       (\<lambda>w. w) (\<lambda>v w. v)
       \<lparr> run = False, filename = ''F'', output_file = None,
         hooks = [''v.push_back'' \<mapsto>
                    Some (push_back_hook \<lparr> JSON = ToString, ParseJSON = (\<lambda>s. Some (FromString_size_t s)) \<rparr>
                            (\<lambda>w. w) (\<lambda>v w. v)),
                  ''v.pop_back'' \<mapsto> Some (pop_back_hook (\<lambda>w. w) (\<lambda>v w. v))] \<rparr> = Abort"
proof -
  have d: "RegisterHook ''v.push_back'' (Some (\<lambda>data w. Done w)) (Instance_ctor ''F'' :: unit Instance) =
     Done \<lparr> run = False, filename = ''F'', output_file = None,
            hooks = [''v.push_back'' \<mapsto> Some (\<lambda>data w. Done w)] \<rparr>"
    by (simp add: RegisterHook_def Instance_ctor_def)
  have v: "VectorPersister \<lparr> JSON = ToString, ParseJSON = (\<lambda>s. Some (FromString_size_t s)) \<rparr> ''v''
       (\<lambda>w. w) (\<lambda>v w. v) (Instance_ctor ''F'') =
     Done \<lparr> run = False, filename = ''F'', output_file = None,
            hooks = [''v.push_back'' \<mapsto>
                       Some (push_back_hook \<lparr> JSON = ToString, ParseJSON = (\<lambda>s. Some (FromString_size_t s)) \<rparr>
                               (\<lambda>w. w) (\<lambda>v w. v)),
                     ''v.pop_back'' \<mapsto> Some (pop_back_hook (\<lambda>w. w) (\<lambda>v w. v))] \<rparr>"
    by (simp add: VectorPersister_def RegisterHook_def Instance_ctor_def)
  from RegisterHook_same_name_aborts [THEN conjunct1, rule_format, OF d]
    RegisterHook_same_name_aborts [THEN conjunct2, THEN conjunct1, rule_format, OF v] d v
  show ?thesis by simp
qed

section \<open>Replay of the journal\<close>




























lemma construct_bool_program:
  "name \<noteq> ''u'' \<Longrightarrow>
     construct (bool_program name) (Instance_ctor file) =
       Done \<lparr> run = False, filename = file, output_file = None, hooks = table_of (bool_program name) \<rparr>"
  unfolding table_of_bool_program
  by (simp add: bool_program_def VectorPersister_def OrderedDictionaryPersister_def
        LightweightMatrixPersister_def RegisterHook_def Instance_ctor_def)

lemma start_bool_program:
  "name \<noteq> ''u'' \<Longrightarrow>
     start (bool_program name) ''F'' (machine jt dev) = Run (no_storages, constructed name jt dev)"
  by (simp add: start_def construct_bool_program machine_def constructed_def)

lemma start_on_empty:
  "name \<noteq> ''u'' \<Longrightarrow>
     start (bool_program name) ''F'' (machine [] dev) = Done (no_storages, running name Good [] dev 0 0)"
  by (simp add: start_bool_program Run_def constructed_def running_def read_file_def any_file_def)



text \<open>
  The replay theorem needs the stream to be good after the last call. On a device that
  refuses every write, \<^verbatim>\<open>PushBack(true)\<close> returns with the element in the live vector and
  nothing in the journal, and a new process replays to an empty vector.
\<close>

lemma replay_misses_failed_write:
  "start (bool_program ''v'') ''F'' (machine [] full_device) =
     Done (no_storages, running ''v'' Good [] full_device 0 0) \<and>
   perform_all (bool_program ''v'') [CallPushBack ''v'' True]
       (no_storages, running ''v'' Good [] full_device 0 0) =
     Done (put_vector ''v'' [True] no_storages, running ''v'' Failed [] full_device 1 1) \<and>
   start (bool_program ''v'') ''F'' (machine [] sound_device) =
     Done (no_storages, running ''v'' Good [] sound_device 0 0) \<and>
   vectors (put_vector ''v'' [True] no_storages) ''v'' = [True] \<and>
   vectors (no_storages :: (bool, bool, bool, bool, bool, bool) storages) ''v'' = []"
  by (simp add: start_on_empty)
     (simp add: running_def bool_program_def bool_codec_def no_storages_def in_storages_def
        PushBack_def Durable_PersistPushBack_def Persist_def stream_write_def full_device_def
        read_file_def put_vector_def vector_of_def)

section \<open>\<^verbatim>\<open>TransactionMeta\<close> is not validated\<close>

text \<open>
  Claim C9, as stated, fails: \<^verbatim>\<open>TransactionMeta\<close> has no validation. A \<^verbatim>\<open>TransactionMeta\<close>
  that is default-constructed and then given \<^verbatim>\<open>begin_us = 1000\<close> and \<^verbatim>\<open>end_us = 500\<close> holds
  exactly these values, with the end before the begin.
\<close>
theorem TransactionMeta_end_before_begin:
  "begin_us (TransactionMeta_ctor\<lparr> begin_us := 1000, end_us := 500 \<rparr>) = 1000 \<and>
   end_us (TransactionMeta_ctor\<lparr> begin_us := 1000, end_us := 500 \<rparr>) = 500 \<and>
   \<not> begin_us (TransactionMeta_ctor\<lparr> begin_us := 1000, end_us := 500 \<rparr>)
       \<le> end_us (TransactionMeta_ctor\<lparr> begin_us := 1000, end_us := 500 \<rparr>)"
  by (simp add: TransactionMeta_ctor_def)

text \<open>
  Claim C9, amended. The one constructor of \<^verbatim>\<open>TransactionMeta\<close>, the default one, sets both
  timestamps to zero and leaves \<^verbatim>\<open>fields\<close> empty, so the value it constructs has
  \<^verbatim>\<open>end_us >= begin_us\<close>; the fields are public, and assigning \<^verbatim>\<open>begin_us\<close> and \<^verbatim>\<open>end_us\<close>
  stores the values given, whatever their order.
\<close>
theorem TransactionMeta_unchecked:
  "begin_us TransactionMeta_ctor = 0 \<and> end_us TransactionMeta_ctor = 0 \<and>
   meta_fields TransactionMeta_ctor = [] \<and>
   begin_us TransactionMeta_ctor \<le> end_us TransactionMeta_ctor \<and>
   begin_us (TransactionMeta_ctor\<lparr> begin_us := b, end_us := e \<rparr>) = b \<and>
   end_us (TransactionMeta_ctor\<lparr> begin_us := b, end_us := e \<rparr>) = e"
  by (simp add: TransactionMeta_ctor_def)

end
